theory Spec2Isabelle
  imports Main "HOL-Library.Word"
begin

section \<open>Bytes, lengths and the 4-byte length prefix\<close>

text \<open>
  \<open>BYTESTRING\<close> is the repository's vector of \<open>unsigned char\<close>. The length prefix is a \<open>uint32_t\<close> written and read through a \<open>char*\<close> cast, that is in
  host (little-endian) order. \<open>u32_bytes\<close> is the memory image of the prefix,
  \<open>u32_value\<close> reads a \<open>uint32_t\<close> variable that was zero and whose first bytes
  were overwritten by a read (a short read leaves the high bytes zero).
\<close>

type_synonym byte = "8 word"
type_synonym BYTESTRING = "byte list"

definition u32_bytes :: "nat \<Rightarrow> BYTESTRING" where
  "u32_bytes n = map of_nat [n mod 256, n div 256 mod 256, n div 65536 mod 256, n div 16777216 mod 256]"

fun le_value :: "BYTESTRING \<Rightarrow> nat" where
  "le_value [] = 0"
| "le_value (b # bs) = unat b + 256 * le_value bs"

definition u32_value :: "BYTESTRING \<Rightarrow> nat" where
  "u32_value bs = le_value (take 4 bs)"

text \<open>The same four bytes read as a signed \<open>int\<close> (two's complement).\<close>

definition i32_of_u32 :: "nat \<Rightarrow> int" where
  "i32_of_u32 n = (if n mod 4294967296 < 2147483648 then int (n mod 4294967296)
                   else int (n mod 4294967296) - 4294967296)"

definition i32_value :: "BYTESTRING \<Rightarrow> int" where
  "i32_value bs = i32_of_u32 (u32_value bs)"

text \<open>\<open>vector::resize\<close> keeps the old prefix and zero-fills the growth; a read into
  \<open>data() + off\<close> overwrites the bytes from \<open>off\<close> on.\<close>

definition resize :: "BYTESTRING \<Rightarrow> nat \<Rightarrow> BYTESTRING" where
  "resize buf n = take n buf @ replicate (n - length buf) 0"

definition write_at :: "BYTESTRING \<Rightarrow> nat \<Rightarrow> BYTESTRING \<Rightarrow> BYTESTRING" where
  "write_at buf off got = take off buf @ got @ drop (off + length got) buf"

section \<open>The sockets capability\<close>

text \<open>
  The socket calls are loaded from the system library at run time; they are the
  environment of the program. An endpoint holds the data that will become readable (one
  list element per moment of availability: a read returns at most the head element, so a
  short read is an element shorter than the request), what a read finds when nothing is
  left, how many writes will still succeed, and everything written so far. The sockets
  are blocking: a write sends the whole buffer or fails. A socket timeout is part of the
  endpoint's behaviour (\<open>RecvTimedOut\<close>, a write budget that is used up), so
  \<open>SetSocketTimeout\<close> and \<open>ResetSocketTimeout\<close> do not appear. Buffers are shorter than
  \<open>2^31\<close> bytes and allocation succeeds.
\<close>

type_synonym SOCKET = nat
type_synonym sockaddr_in = nat

datatype SocketTypes = TCP | UDP

datatype rx_end = PeerClosed | RecvTimedOut | RecvReset

record endpoint =
  rx :: "(sockaddr_in \<times> BYTESTRING) list"
  rx_end :: rx_end
  tx_left :: "nat option"
  tx :: "(sockaddr_in \<times> BYTESTRING) list"
  is_closed :: bool

record netstate =
  sockets :: "SOCKET \<Rightarrow> endpoint"
  last_error :: int
  m_WSAInitialized :: bool

definition NULL_ADDR :: sockaddr_in where "NULL_ADDR = 0"
definition SOCKET_ERROR :: int where "SOCKET_ERROR = - 1"
definition INVALID_SOCKET :: SOCKET where "INVALID_SOCKET = 18446744073709551615"
definition WSAETIMEDOUT :: int where "WSAETIMEDOUT = 10060"
definition WSAECONNRESET :: int where "WSAECONNRESET = 10054"
definition WSAENOTSOCK :: int where "WSAENOTSOCK = 10038"
definition WSAEMSGSIZE :: int where "WSAEMSGSIZE = 10040"
definition WSAEFAULT :: int where "WSAEFAULT = 10014"

definition set_endpoint :: "SOCKET \<Rightarrow> endpoint \<Rightarrow> 'a netstate_scheme \<Rightarrow> 'a netstate_scheme" where
  "set_endpoint s e w = w\<lparr>sockets := (sockets w)(s := e)\<rparr>"

definition rx_exhausted :: "endpoint \<Rightarrow> 'a netstate_scheme \<Rightarrow> int \<times> 'a netstate_scheme" where
  "rx_exhausted e w =
     (case rx_end e of
        PeerClosed \<Rightarrow> (0, w)
      | RecvTimedOut \<Rightarrow> (SOCKET_ERROR, w\<lparr>last_error := WSAETIMEDOUT\<rparr>)
      | RecvReset \<Rightarrow> (SOCKET_ERROR, w\<lparr>last_error := WSAECONNRESET\<rparr>))"

text \<open>\<open>recv\<close> on a stream socket: result, the bytes stored into the buffer, new state.\<close>

definition Receive :: "SOCKET \<Rightarrow> int \<Rightarrow> 'a netstate_scheme \<Rightarrow> int \<times> BYTESTRING \<times> 'a netstate_scheme" where
  "Receive s len w =
     (let e = sockets w s in
      if is_closed e then (SOCKET_ERROR, [], w\<lparr>last_error := WSAENOTSOCK\<rparr>)
      else if len < 0 then (SOCKET_ERROR, [], w\<lparr>last_error := WSAEFAULT\<rparr>)
      else if len = 0 then (0, [], w)
      else (case filter (\<lambda>(a, c). c \<noteq> []) (rx e) of
              [] \<Rightarrow> (case rx_exhausted e w of (r, w') \<Rightarrow> (r, [], w'))
            | (a, c) # cs \<Rightarrow>
                (let k = min (nat len) (length c) in
                 (int k, take k c,
                  set_endpoint s (e\<lparr>rx := (if k < length c then (a, drop k c) # cs else cs)\<rparr>) w))))"

text \<open>\<open>recvfrom\<close> on a datagram socket: one datagram per call, with its source address;
  a datagram longer than the buffer is an error and is lost.\<close>

definition ReceiveFrom :: "SOCKET \<Rightarrow> int \<Rightarrow> 'a netstate_scheme \<Rightarrow> int \<times> BYTESTRING \<times> sockaddr_in option \<times> 'a netstate_scheme" where
  "ReceiveFrom s len w =
     (let e = sockets w s in
      if is_closed e then (SOCKET_ERROR, [], None, w\<lparr>last_error := WSAENOTSOCK\<rparr>)
      else if len < 0 then (SOCKET_ERROR, [], None, w\<lparr>last_error := WSAEFAULT\<rparr>)
      else (case rx e of
              [] \<Rightarrow> (case rx_exhausted e w of (r, w') \<Rightarrow> (r, [], None, w'))
            | (a, c) # cs \<Rightarrow>
                (let w' = set_endpoint s (e\<lparr>rx := cs\<rparr>) w in
                 if int (length c) \<le> len then (int (length c), c, Some a, w')
                 else (SOCKET_ERROR, take (nat len) c, Some a, w'\<lparr>last_error := WSAEMSGSIZE\<rparr>))))"

text \<open>\<open>send\<close> and \<open>sendto\<close> on a blocking socket write everything or fail.\<close>

definition SendTo :: "SOCKET \<Rightarrow> BYTESTRING \<Rightarrow> sockaddr_in \<Rightarrow> 'a netstate_scheme \<Rightarrow> int \<times> 'a netstate_scheme" where
  "SendTo s bytes addr w =
     (let e = sockets w s in
      if is_closed e then (SOCKET_ERROR, w\<lparr>last_error := WSAENOTSOCK\<rparr>)
      else if tx_left e = Some 0 then (SOCKET_ERROR, w\<lparr>last_error := WSAECONNRESET\<rparr>)
      else (int (length bytes),
            set_endpoint s (e\<lparr>tx := tx e @ [(addr, bytes)],
                               tx_left := map_option (\<lambda>n. n - 1) (tx_left e)\<rparr>) w))"

definition Send :: "SOCKET \<Rightarrow> BYTESTRING \<Rightarrow> 'a netstate_scheme \<Rightarrow> int \<times> 'a netstate_scheme" where
  "Send s bytes w = SendTo s bytes NULL_ADDR w"

definition CloseSocket :: "SOCKET \<Rightarrow> 'a netstate_scheme \<Rightarrow> 'a netstate_scheme" where
  "CloseSocket s w = set_endpoint s ((sockets w s)\<lparr>is_closed := True\<rparr>) w"

section \<open>NetworkManager\<close>

text \<open>
  Run-time faults of the C++ program that are values of the model: a member access
  through a null \<open>Client*\<close>, one through a pointer into the client table whose element
  was erased, and the exception \<open>vector::resize\<close> throws for a size above \<open>max_size\<close>.
\<close>

datatype fault = NullPointerDereference | UseAfterErase | LengthError

text \<open>Conversion of a \<open>size_t\<close> to the \<open>int\<close> length parameter of the socket calls.\<close>

definition int_of_size :: "nat \<Rightarrow> int" where
  "int_of_size n = i32_of_u32 n"

text \<open>
  \<open>TransmitData\<close>: \<open>serialized\<close> is \<open>Serialization::SerializeStruct(message)\<close>, or the
  message itself when it already is a \<open>BYTESTRING\<close>; \<open>RSAEncrypt\<close> is the library's
  encryption. The result is the returned \<open>bool\<close> and the state.
\<close>

definition TransmitData ::
  "(BYTESTRING \<Rightarrow> 'k \<Rightarrow> bool \<Rightarrow> BYTESTRING) \<Rightarrow> BYTESTRING \<Rightarrow> SOCKET \<Rightarrow> SocketTypes \<Rightarrow> sockaddr_in \<Rightarrow>
   bool \<Rightarrow> 'k \<Rightarrow> bool \<Rightarrow> 'a netstate_scheme \<Rightarrow> bool \<times> 'a netstate_scheme" where
  "TransmitData RSAEncrypt message s type addr encrypted rsaKey privateKey w =
     (let serialized = (if encrypted then RSAEncrypt message rsaKey privateKey else message);
          size = length serialized mod 4294967296
      in case type of
           TCP \<Rightarrow>
             (case Send s (u32_bytes size) w of (sent, w1) \<Rightarrow>
                if sent = SOCKET_ERROR then (False, w1)
                else (case Send s serialized w1 of (sent, w2) \<Rightarrow> (sent \<noteq> SOCKET_ERROR, w2)))
         | UDP \<Rightarrow>
             (case SendTo s (u32_bytes size) addr w of (sent, w1) \<Rightarrow>
                if sent = SOCKET_ERROR then (False, w1)
                else (case SendTo s serialized addr w1 of (sent, w2) \<Rightarrow> (sent \<noteq> SOCKET_ERROR, w2))))"

text \<open>The loop of \<open>SendTCPLargeData\<close>; every successful write sends at least one byte
  of the rest, so the rest shrinks.\<close>

function SendTCPLargeData_loop ::
  "BYTESTRING \<Rightarrow> SOCKET \<Rightarrow> int \<Rightarrow> int \<Rightarrow> 'a netstate_scheme \<Rightarrow> bool \<times> 'a netstate_scheme" where
  "SendTCPLargeData_loop message s toSend bytesSent w =
     (if bytesSent < toSend then
        (case Send s (take (nat (toSend - bytesSent)) (drop (nat bytesSent) message)) w of (sent, w') \<Rightarrow>
           if sent \<le> 0 then (False, w')
           else SendTCPLargeData_loop message s toSend (bytesSent + sent) w')
      else (True, w))"
  by pat_completeness auto
termination
  by (relation "measure (\<lambda>(message, s, toSend, bytesSent, w). nat (toSend - bytesSent))") auto

declare SendTCPLargeData_loop.simps [simp del]

definition SendTCPLargeData :: "BYTESTRING \<Rightarrow> SOCKET \<Rightarrow> 'a netstate_scheme \<Rightarrow> bool \<times> 'a netstate_scheme" where
  "SendTCPLargeData message s w =
     (let toSend = int_of_size (length message) in
      case Send s (u32_bytes (length message)) w of (sent, w') \<Rightarrow>
        if sent \<le> 0 then (False, w')
        else SendTCPLargeData_loop message s toSend 0 w')"

text \<open>The loop of \<open>ReceiveTCPLargeData\<close>, with the buffer it fills.\<close>

function ReceiveTCPLargeData_loop ::
  "SOCKET \<Rightarrow> int \<Rightarrow> int \<Rightarrow> BYTESTRING \<Rightarrow> 'a netstate_scheme \<Rightarrow> bool \<times> BYTESTRING \<times> 'a netstate_scheme" where
  "ReceiveTCPLargeData_loop s toReceive bytesReceived buffer w =
     (if bytesReceived < toReceive then
        (case Receive s (toReceive - bytesReceived) w of (received, got, w') \<Rightarrow>
           if received \<le> 0 then (False, buffer, w')
           else ReceiveTCPLargeData_loop s toReceive (bytesReceived + received)
                  (write_at buffer (nat bytesReceived) got) w')
      else (True, buffer, w))"
  by pat_completeness auto
termination
  by (relation "measure (\<lambda>(s, toReceive, bytesReceived, buffer, w). nat (toReceive - bytesReceived))") auto

declare ReceiveTCPLargeData_loop.simps [simp del]

text \<open>
  \<open>ReceiveTCPLargeData(data, s)\<close>: the result is the returned \<open>bool\<close>, the caller's
  \<open>data\<close> afterwards and the state. A negative \<open>toReceive\<close> converts to a \<open>size_t\<close>
  above \<open>max_size\<close>, for which \<open>resize\<close> throws.
\<close>

definition ReceiveTCPLargeData ::
  "BYTESTRING \<Rightarrow> SOCKET \<Rightarrow> 'a netstate_scheme \<Rightarrow> fault + (bool \<times> BYTESTRING \<times> 'a netstate_scheme)" where
  "ReceiveTCPLargeData data s w =
     (case Receive s 4 w of (received, got, w1) \<Rightarrow>
        if received \<le> 0 then Inr (False, data, w1)
        else (let toReceive = i32_value got in
              if toReceive < 0 then Inl LengthError
              else (case ReceiveTCPLargeData_loop s toReceive 0 (resize [] (nat toReceive)) w1 of
                      (ok, buffer, w2) \<Rightarrow> Inr (ok, if ok then buffer else data, w2))))"

text \<open>
  \<open>ReceiveData(data, s, type, addr)\<close>: \<open>Deserialize\<close> is
  \<open>Serialization::DeserializeToStruct\<close> at the type of \<open>data\<close>; \<open>responseBuffer0\<close> is the
  initial \<open>responseBuffer\<close> (the caller's \<open>data\<close> when that is a \<open>BYTESTRING\<close>, empty
  otherwise). The result is the returned \<open>bool\<close>, \<open>data\<close> and \<open>addr\<close> afterwards, and
  the state. There is one read for the prefix and one read for the payload.
\<close>

definition ReceiveData ::
  "(BYTESTRING \<Rightarrow> 'd) \<Rightarrow> BYTESTRING \<Rightarrow> 'd \<Rightarrow> SOCKET \<Rightarrow> SocketTypes \<Rightarrow> sockaddr_in \<Rightarrow> 'a netstate_scheme \<Rightarrow>
   bool \<times> 'd \<times> sockaddr_in \<times> 'a netstate_scheme" where
  "ReceiveData Deserialize responseBuffer0 data s type addr w =
     (if \<not> m_WSAInitialized w then (False, data, addr, w)
      else case type of
        TCP \<Rightarrow>
          (case Receive s 4 w of (received, got, w1) \<Rightarrow>
             if received \<le> 0 then (False, data, addr, w1)
             else (let dataSize = u32_value got;
                       responseBuffer = resize responseBuffer0 dataSize
                   in case Receive s (int_of_size (length responseBuffer)) w1 of (received, got, w2) \<Rightarrow>
                        (0 < received, Deserialize (write_at responseBuffer 0 got), addr, w2)))
      | UDP \<Rightarrow>
          (case ReceiveFrom s 4 w of (received, got, from, w1) \<Rightarrow>
             (let addr1 = (case from of Some a \<Rightarrow> a | None \<Rightarrow> addr) in
              if received \<le> 0 then (False, data, addr1, w1)
              else (let dataSize = u32_value got;
                        responseBuffer = resize responseBuffer0 dataSize
                    in case ReceiveFrom s (int_of_size (length responseBuffer)) w1 of (received, got, from, w2) \<Rightarrow>
                         (0 < received, Deserialize (write_at responseBuffer 0 got),
                          (case from of Some a \<Rightarrow> a | None \<Rightarrow> addr1), w2)))))"

section \<open>Data model of the server\<close>

text \<open>
  An RSA key object is the byte string of its encoding; an \<open>RSA*\<close> is an optional key,
  \<open>None\<close> the null pointer.
\<close>

type_synonym RSA = BYTESTRING

record RSAKeys =
  pub :: "RSA option"
  priv :: "RSA option"

text \<open>
  Modelled from the spec: the message types and their enumerations are declared in
  headers that are not among the sources. The action codes are the ones the dispatcher
  and the keep-alive handler name, with one more constructor for every other value a
  decoded message can carry.
\<close>

datatype ClientMessage =
    kDisconnectClient | kConnectClient | kRequestPrivateEncryptionKey
  | kRequestPublicEncryptionKey | kRequestRansomBTCAddress | kValidateRansomPayment
  | kOtherMessage int

datatype RemoteAction =
    kNone | kOpenRemoteProcess | kPingClient | kRemoteBSOD | kRemoteShutdown | kKillClient
  | kRansomwareEnable | kAddToStartup | kKeepAlive | kReturnPrivateRSAKey | kOtherAction int

datatype ClientResponseCode = kTimeout | kResponseError | kResponseOk | kOtherCode int

record ClientRequest =
  valid :: bool
  action :: ClientMessage

record Packet =
  pkt_action :: RemoteAction
  flags :: nat
  buffLen :: int
  buffer :: BYTESTRING

record ClientResponse =
  responseCode :: ClientResponseCode
  response_body :: BYTESTRING

text \<open>
  Modelled from the spec: the class \<open>Client\<close> (Client.h is not among the sources). The
  record has the members the server code reads and writes; a new client has no public
  key, no identity and all flags clear.
\<close>

record Client =
  ClientUID :: int
  Socket :: SOCKET
  AddressInfo :: sockaddr_in
  Alive :: bool
  ExpectingResponse :: bool
  KeepAliveProcess :: bool
  KeepAliveSuccess :: bool
  ClientPublicKey :: "RSA option"
  DesktopName :: string
  MachineGUID :: string
  RansomSecrets :: RSAKeys
  RansomAmountUSD :: int
  UniqueBTCWalletAddress :: string

definition new_Client :: "int \<Rightarrow> SOCKET \<Rightarrow> sockaddr_in \<Rightarrow> Client" where
  "new_Client cuid connection incoming =
     \<lparr>ClientUID = cuid, Socket = connection, AddressInfo = incoming, Alive = False,
      ExpectingResponse = False, KeepAliveProcess = False, KeepAliveSuccess = False,
      ClientPublicKey = None, DesktopName = [], MachineGUID = [],
      RansomSecrets = \<lparr>pub = None, priv = None\<rparr>, RansomAmountUSD = 0,
      UniqueBTCWalletAddress = []\<rparr>"

definition SOCK_STREAM :: int where "SOCK_STREAM = 1"
definition SOCK_DGRAM :: int where "SOCK_DGRAM = 2"

record Server =
  sfd :: SOCKET
  type :: int
  addr :: sockaddr_in
  port :: int
  alive :: bool
  accepting :: bool

text \<open>The constant members of \<open>m_Config\<close>.\<close>

definition maxConnections :: nat where "maxConnections = 100"
definition keepAliveIntervalMs :: nat where "keepAliveIntervalMs = 20000"
definition keepAliveTimeoutMs :: nat where "keepAliveTimeoutMs = 5000"

text \<open>The server state file: the \<open>server_info\<close> object and the \<open>client_list\<close> map keyed
  by machine identifier. A missing or empty file is the document with neither.\<close>

record server_info =
  connections :: nat
  max_connections :: nat
  udp_port :: int
  tcp_port :: int

record saved_client =
  computer_name :: string
  machine_guid :: string
  client_id :: int
  unique_btc_wallet :: string
  ransom_payment_usd :: int
  ransom_keys :: RSAKeys

record JSON =
  json_server_info :: "server_info option"
  json_client_list :: "(string \<times> saved_client) list option"

datatype thread = TCPReceiveMessagesFromClient_thread int | SendKeepAlivePackets_thread int

text \<open>
  The server object together with its environment: the sockets (inherited from
  \<open>netstate\<close>), the state file, and the detached threads started so far. The client
  table is an association list with distinct keys, in insertion order. Each member
  function is modelled as its thread runs it; what another thread does meanwhile is an
  explicit input where the code depends on it (the frames handed over during the
  keep-alive wait, the writes to a session's flags during a blocking receive).
\<close>

record server = netstate +
  m_ClientList :: "(int \<times> Client) list"
  m_TCPServerDetails :: Server
  m_UDPServerDetails :: Server
  m_SessionKeys :: RSAKeys
  TCPPort :: int
  UDPPort :: int
  state_file :: JSON
  threads :: "thread list"

text \<open>
  The external capabilities: encryption and its validity check, the serialization
  codec, the DER coding of public keys and the name lookup. \<open>d2i_RSAPublicKey\<close> gets the
  bytes that were received into the buffer and the announced length (the rest of the
  buffer, after a short read, is uninitialised). \<open>ResponseZero\<close> is the value-initialised
  \<open>ClientResponse\<close>. The client table is a \<open>std::unordered_map\<close>, whose iteration order
  the container does not specify: \<open>iteration_order\<close> gives the sequence, a rearrangement
  of the table's entries, in which a loop over the table visits its elements.
\<close>

record externals =
  RSAEncrypt :: "BYTESTRING \<Rightarrow> RSA option \<Rightarrow> bool \<Rightarrow> BYTESTRING"
  RSADecrypt :: "BYTESTRING \<Rightarrow> RSA option \<Rightarrow> bool \<Rightarrow> BYTESTRING"
  GoodDecrypt :: "BYTESTRING \<Rightarrow> bool"
  SerializePacket :: "Packet \<Rightarrow> BYTESTRING"
  SerializeServer :: "Server \<Rightarrow> BYTESTRING"
  DeserializeBytes :: "BYTESTRING \<Rightarrow> BYTESTRING"
  DeserializeRequest :: "BYTESTRING \<Rightarrow> ClientRequest"
  DeserializePacket :: "BYTESTRING \<Rightarrow> Packet"
  DeserializeResponse :: "BYTESTRING \<Rightarrow> ClientResponse"
  BytestringToString :: "BYTESTRING \<Rightarrow> string"
  i2d_RSAPublicKey :: "RSA option \<Rightarrow> BYTESTRING option"
  d2i_RSAPublicKey :: "BYTESTRING \<Rightarrow> int \<Rightarrow> RSA option"
  GetHostByName :: "sockaddr_in option"
  ResponseZero :: ClientResponse
  iteration_order :: "(int \<times> Client) list \<Rightarrow> (int \<times> Client) list"

section \<open>The client table\<close>

definition ClientIsInClientList :: "int \<Rightarrow> server \<Rightarrow> bool" where
  "ClientIsInClientList cuid s = (map_of (m_ClientList s) cuid \<noteq> None)"

text \<open>\<open>GetClientPtr\<close>: the element the pointer points to, \<open>None\<close> for \<open>nullptr\<close>.\<close>

definition GetClientPtr :: "int \<Rightarrow> server \<Rightarrow> Client option" where
  "GetClientPtr cuid s = (if \<not> ClientIsInClientList cuid s then None else map_of (m_ClientList s) cuid)"

text \<open>Reading and writing through a \<open>Client*\<close> that points at the element of key \<open>cuid\<close>.\<close>

definition deref :: "int \<Rightarrow> server \<Rightarrow> Client" where
  "deref cuid s = the (map_of (m_ClientList s) cuid)"

fun modify_entry :: "int \<Rightarrow> (Client \<Rightarrow> Client) \<Rightarrow> (int \<times> Client) list \<Rightarrow> (int \<times> Client) list" where
  "modify_entry cuid f [] = []"
| "modify_entry cuid f ((k, c) # l) = (if k = cuid then (k, f c) # l else (k, c) # modify_entry cuid f l)"

definition modify_client :: "int \<Rightarrow> (Client \<Rightarrow> Client) \<Rightarrow> server \<Rightarrow> server" where
  "modify_client cuid f s = s\<lparr>m_ClientList := modify_entry cuid f (m_ClientList s)\<rparr>"

text \<open>\<open>unordered_map::insert\<close> keeps an element that already has the key.\<close>

definition AddToClientList :: "Client \<Rightarrow> server \<Rightarrow> bool \<times> server" where
  "AddToClientList client s =
     (True, if map_of (m_ClientList s) (ClientUID client) \<noteq> None then s
            else s\<lparr>m_ClientList := m_ClientList s @ [(ClientUID client, client)]\<rparr>)"

definition erase :: "int \<Rightarrow> server \<Rightarrow> server" where
  "erase cuid s = s\<lparr>m_ClientList := filter (\<lambda>(k, c). k \<noteq> cuid) (m_ClientList s)\<rparr>"

text \<open>
  Modelled from the spec: \<open>Client::Disconnect\<close> (Client.h is not among the sources)
  closes the session's socket and makes the connection handle invalid.
\<close>

definition Disconnect :: "int \<Rightarrow> server \<Rightarrow> server" where
  "Disconnect cuid s =
     modify_client cuid (\<lambda>c. c\<lparr>Socket := INVALID_SOCKET\<rparr>) (CloseSocket (Socket (deref cuid s)) s)"

definition RemoveClientFromServer :: "int \<Rightarrow> server \<Rightarrow> server" where
  "RemoveClientFromServer client s =
     (if \<not> Alive (deref client s) then s
      else Disconnect client (modify_client client (\<lambda>c. c\<lparr>Alive := False\<rparr>) s))"

section \<open>The state file\<close>

definition json_empty :: "JSON \<Rightarrow> bool" where
  "json_empty data = (json_server_info data = None \<and> json_client_list data = None)"

definition ReadServerStateFile :: "server \<Rightarrow> JSON" where
  "ReadServerStateFile s = state_file s"

fun json_put :: "string \<Rightarrow> saved_client \<Rightarrow> (string \<times> saved_client) list \<Rightarrow> (string \<times> saved_client) list" where
  "json_put k v [] = [(k, v)]"
| "json_put k v ((k', v') # l) = (if k' = k then (k, v) # l else (k', v') # json_put k v l)"

definition save_entry :: "Client \<Rightarrow> saved_client" where
  "save_entry client =
     \<lparr>computer_name = DesktopName client, machine_guid = MachineGUID client,
      client_id = ClientUID client, unique_btc_wallet = UniqueBTCWalletAddress client,
      ransom_payment_usd = RansomAmountUSD client, ransom_keys = RansomSecrets client\<rparr>"

text \<open>
  \<open>SaveServerState\<close>. The loop over the client table visits the elements in the order
  \<open>iteration_order\<close> gives; of two sessions with one machine identifier the one visited
  later is the one saved. The order of the saved list carries no meaning (the document
  is looked up by key).
\<close>

definition SaveServerState :: "externals \<Rightarrow> server \<Rightarrow> bool \<times> server" where
  "SaveServerState X s =
     (let data = ReadServerStateFile s;
          info = \<lparr>connections = length (m_ClientList s), max_connections = maxConnections,
                  udp_port = UDPPort s, tcp_port = TCPPort s\<rparr>;
          visited = iteration_order X (m_ClientList s);
          entries = (if visited = [] then json_client_list data
                     else Some (foldl (\<lambda>l (k, client). json_put (MachineGUID client) (save_entry client) l)
                                  (case json_client_list data of None \<Rightarrow> [] | Some l \<Rightarrow> l)
                                  visited))
      in (True, s\<lparr>state_file := \<lparr>json_server_info = Some info, json_client_list = entries\<rparr>\<rparr>))"

definition IsClientInSaveFile :: "string \<Rightarrow> server \<Rightarrow> bool" where
  "IsClientInSaveFile machineGUID s =
     (let file = ReadServerStateFile s in
      case json_client_list file of
        Some l \<Rightarrow> \<not> json_empty file \<and> map_of l machineGUID \<noteq> None
      | None \<Rightarrow> False)"

definition GetClientSaveFile :: "int \<Rightarrow> server \<Rightarrow> fault + server" where
  "GetClientSaveFile cuid s =
     (case GetClientPtr cuid s of
        None \<Rightarrow> Inl NullPointerDereference
      | Some client \<Rightarrow>
          (let machineGUID = MachineGUID client in
           if \<not> IsClientInSaveFile machineGUID s then Inr s
           else (let data = ReadServerStateFile s in
                 if json_empty data then Inr s
                 else case json_client_list data of
                   None \<Rightarrow> Inr s
                 | Some l \<Rightarrow>
                     (case map_of l machineGUID of
                        None \<Rightarrow> Inr s
                      | Some info \<Rightarrow>
                          Inr (modify_client cuid
                                 (\<lambda>c. c\<lparr>DesktopName := computer_name info,
                                         RansomAmountUSD := ransom_payment_usd info,
                                         MachineGUID := machine_guid info,
                                         RansomSecrets := ransom_keys info,
                                         UniqueBTCWalletAddress := unique_btc_wallet info\<rparr>) s)))))"

section \<open>Connection lifecycle\<close>

definition and_then :: "fault + 'a \<Rightarrow> ('a \<Rightarrow> fault + 'b) \<Rightarrow> fault + 'b" where
  "and_then m f = (case m of Inl e \<Rightarrow> Inl e | Inr x \<Rightarrow> f x)"

text \<open>The memory image of an \<open>int\<close>.\<close>

definition i32_bytes :: "int \<Rightarrow> BYTESTRING" where
  "i32_bytes n = u32_bytes (nat (n mod 4294967296))"

text \<open>
  \<open>ExchangePublicKeys\<close>. When the DER coding of the own key fails, \<open>len\<close> is negative and
  the second write, of a negative length from a null buffer, fails.
\<close>

definition ExchangePublicKeys :: "externals \<Rightarrow> int \<Rightarrow> server \<Rightarrow> bool \<times> server" where
  "ExchangePublicKeys X cuid s =
     (case GetClientPtr cuid s of
        None \<Rightarrow> (False, s)
      | Some client \<Rightarrow>
          (let der = i2d_RSAPublicKey X (pub (m_SessionKeys s));
               len = (case der of None \<Rightarrow> - 1 | Some d \<Rightarrow> int_of_size (length d))
           in case Send (Socket client) (i32_bytes len) s of (sent, s1) \<Rightarrow>
                if sent \<le> 0 then (False, s1)
                else (case (case der of
                              None \<Rightarrow> (SOCKET_ERROR, s1\<lparr>last_error := WSAEFAULT\<rparr>)
                            | Some d \<Rightarrow> Send (Socket client) d s1) of (sent, s2) \<Rightarrow>
                        if sent \<le> 0 then (False, s2)
                        else (case Receive (Socket client) 4 s2 of (received, got, s3) \<Rightarrow>
                                if received \<le> 0 then (False, s3)
                                else (let clientLen = i32_value got in
                                      case Receive (Socket client) clientLen s3 of (received, clientDer, s4) \<Rightarrow>
                                        if received \<le> 0 then (False, s4)
                                        else (True,
                                              modify_client cuid
                                                (\<lambda>c. c\<lparr>ClientPublicKey := d2i_RSAPublicKey X clientDer clientLen\<rparr>)
                                                s4))))))"

definition GetClientMachineGUID :: "externals \<Rightarrow> int \<Rightarrow> server \<Rightarrow> fault + (bool \<times> server)" where
  "GetClientMachineGUID X cuid s =
     (case GetClientPtr cuid s of
        None \<Rightarrow> Inl NullPointerDereference
      | Some client \<Rightarrow>
          (case ReceiveData (DeserializeBytes X) [] [] (Socket client) TCP NULL_ADDR s of
             (received, machienGUID, a, s1) \<Rightarrow>
               if \<not> received then Inr (False, s1)
               else (let decrypted = RSADecrypt X machienGUID (priv (m_SessionKeys s1)) True in
                     if \<not> GoodDecrypt X decrypted then Inr (False, s1)
                     else Inr (True, modify_client cuid
                                       (\<lambda>c. c\<lparr>MachineGUID := BytestringToString X decrypted\<rparr>) s1))))"

definition GetClientComputerName :: "externals \<Rightarrow> int \<Rightarrow> server \<Rightarrow> fault + (bool \<times> server)" where
  "GetClientComputerName X cuid s =
     (case GetClientPtr cuid s of
        None \<Rightarrow> Inl NullPointerDereference
      | Some client \<Rightarrow>
          (case ReceiveData (DeserializeBytes X) [] [] (Socket client) TCP NULL_ADDR s of
             (received, computerNameSerialized, a, s1) \<Rightarrow>
               if \<not> received then Inr (False, s1)
               else (let decrypted = RSADecrypt X computerNameSerialized (priv (m_SessionKeys s1)) True in
                     if \<not> GoodDecrypt X decrypted then Inr (False, s1)
                     else Inr (True, modify_client cuid
                                       (\<lambda>c. c\<lparr>DesktopName := BytestringToString X decrypted\<rparr>) s1))))"

text \<open>
  \<open>OnTCPConnection\<close>. The identifier the \<open>Client\<close> constructor generates and the key pair
  \<open>GenerateRSAPair\<close> produces are inputs. The results of the calls are dropped, as in the
  source; the two detached threads are recorded in \<open>threads\<close>.
\<close>

definition OnTCPConnection ::
  "externals \<Rightarrow> int \<Rightarrow> RSAKeys \<Rightarrow> SOCKET \<Rightarrow> sockaddr_in \<Rightarrow> server \<Rightarrow> fault + server" where
  "OnTCPConnection X cuid ransomKeys connection incoming s =
     (let client = (new_Client cuid connection incoming)\<lparr>RansomSecrets := ransomKeys, Alive := True\<rparr>;
          s1 = snd (AddToClientList client s);
          s2 = snd (ExchangePublicKeys X (ClientUID client) s1)
      in and_then (GetClientComputerName X (ClientUID client) s2) (\<lambda>(r3, s3).
         and_then (GetClientMachineGUID X (ClientUID client) s3) (\<lambda>(r4, s4).
         and_then (if IsClientInSaveFile (MachineGUID client) s4
                   then GetClientSaveFile (ClientUID client) s4 else Inr s4) (\<lambda>s5.
           (let s6 = snd (SaveServerState X s5) in
            Inr (s6\<lparr>threads := threads s6 @ [TCPReceiveMessagesFromClient_thread (ClientUID client),
                                              SendKeepAlivePackets_thread (ClientUID client)]\<rparr>))))))"

text \<open>
  The accept loop. Each element of \<open>events\<close> is the outcome of one \<open>accept\<close> call; when
  none is left the thread stays blocked in \<open>accept\<close>.
\<close>

datatype accept_event = AcceptFailed | Accepted SOCKET sockaddr_in int RSAKeys

datatype 'a run = Finished 'a | Waiting 'a | Crashed fault

fun AcceptTCPConnections_loop :: "externals \<Rightarrow> accept_event list \<Rightarrow> server \<Rightarrow> server run" where
  "AcceptTCPConnections_loop X [] s =
     (if length (m_ClientList s) \<le> 200 \<and> alive (m_TCPServerDetails s) then Waiting s else Finished s)"
| "AcceptTCPConnections_loop X (event # rest) s =
     (if length (m_ClientList s) \<le> 200 \<and> alive (m_TCPServerDetails s) then
        (case event of
           AcceptFailed \<Rightarrow> AcceptTCPConnections_loop X rest s
         | Accepted clientSocket peer cuid ransomKeys \<Rightarrow>
             (if clientSocket = INVALID_SOCKET then AcceptTCPConnections_loop X rest s
              else case OnTCPConnection X cuid ransomKeys clientSocket peer s of
                     Inl f \<Rightarrow> Crashed f
                   | Inr s' \<Rightarrow> AcceptTCPConnections_loop X rest s'))
      else Finished s)"

definition AcceptTCPConnections :: "externals \<Rightarrow> accept_event list \<Rightarrow> server \<Rightarrow> server run" where
  "AcceptTCPConnections X events s =
     (if accepting (m_TCPServerDetails s) then Finished s
      else case AcceptTCPConnections_loop X events
                  (s\<lparr>m_TCPServerDetails := (m_TCPServerDetails s)\<lparr>accepting := True\<rparr>\<rparr>) of
             Finished s' \<Rightarrow> Finished (s'\<lparr>m_TCPServerDetails := (m_TCPServerDetails s')\<lparr>accepting := False\<rparr>\<rparr>)
           | Waiting s' \<Rightarrow> Waiting s'
           | Crashed f \<Rightarrow> Crashed f)"

section \<open>Protocol dispatcher\<close>

text \<open>
  \<open>PerformRequest\<close> has one \<open>return\<close> statement, for a request that is not valid. On
  every other path control reaches the closing brace of the function: there is no
  returned value, and \<open>NoReturnValue\<close> carries the local variable \<open>success\<close> at that
  point. In the \<open>kDisconnectClient\<close> case the state is saved and the element erased, and
  then \<open>Disconnect\<close> is called through \<open>TCPClient\<close>: a null pointer on the UDP server and
  for an unknown identifier, a pointer to the erased element otherwise.
\<close>

datatype retval = ReturnValue bool | NoReturnValue bool

text \<open>The reply \<open>PerformRequest\<close> builds for \<open>kRequestPrivateEncryptionKey\<close>: a
  value-initialised packet with the action set; the key itself is not inserted.\<close>

definition private_key_reply :: Packet where
  "private_key_reply = \<lparr>pkt_action = kReturnPrivateRSAKey, flags = 0, buffLen = 0, buffer = []\<rparr>"

definition PerformRequest ::
  "externals \<Rightarrow> ClientRequest \<Rightarrow> Server \<Rightarrow> int \<Rightarrow> sockaddr_in \<Rightarrow> server \<Rightarrow> fault + (retval \<times> server)" where
  "PerformRequest X req on cuid incoming s =
     (if \<not> valid req then Inr (ReturnValue False, s)
      else
        (let onTCP = (type on = SOCK_STREAM);
             TCPClient = (if onTCP then GetClientPtr cuid s else None)
         in case action req of
              kDisconnectClient \<Rightarrow>
                (let s1 = erase cuid (snd (SaveServerState X s)) in
                 case TCPClient of
                   None \<Rightarrow> Inl NullPointerDereference
                 | Some c \<Rightarrow> Inl UseAfterErase)
            | kConnectClient \<Rightarrow>
                (if onTCP then Inr (NoReturnValue False, s)
                 else case GetHostByName X of
                        None \<Rightarrow> Inl NullPointerDereference
                      | Some host \<Rightarrow>
                          (let temp = (m_TCPServerDetails s)\<lparr>addr := host\<rparr> in
                           case TransmitData (RSAEncrypt X) (SerializeServer X temp)
                                  (sfd (m_UDPServerDetails s)) UDP incoming False None False s of
                             (success, s1) \<Rightarrow> Inr (NoReturnValue success, s1)))
            | kRequestPrivateEncryptionKey \<Rightarrow>
                (if \<not> onTCP then Inr (NoReturnValue False, s)
                 else case TCPClient of
                        None \<Rightarrow> Inl NullPointerDereference
                      | Some c \<Rightarrow>
                          (let reply = private_key_reply in
                           case TransmitData (RSAEncrypt X) (SerializePacket X reply)
                                  (Socket c) TCP NULL_ADDR True (ClientPublicKey c) False s of
                             (success, s1) \<Rightarrow> Inr (NoReturnValue success, s1)))
            | kRequestPublicEncryptionKey \<Rightarrow> Inr (NoReturnValue False, s)
            | kRequestRansomBTCAddress \<Rightarrow> Inr (NoReturnValue False, s)
            | kValidateRansomPayment \<Rightarrow> Inr (NoReturnValue False, s)
            | kOtherMessage v \<Rightarrow> Inr (NoReturnValue False, s)))"

text \<open>
  One iteration of the loop of \<open>ListenForUDPMessages\<close>, and the loop with a bound on
  the number of iterations (\<open>Waiting\<close>: the bound is used up and the loop still runs).
  \<open>req0\<close> is the value-initialised request and \<open>incomingAddr\<close> the uninitialised local
  that the receive fills in.
\<close>

definition ListenForUDPMessages_iteration :: "externals \<Rightarrow> ClientRequest \<Rightarrow> sockaddr_in \<Rightarrow> server \<Rightarrow> fault + server" where
  "ListenForUDPMessages_iteration X req0 incomingAddr s =
     (case ReceiveData (DeserializeRequest X) [] req0 (sfd (m_UDPServerDetails s)) UDP incomingAddr s of
        (received, req, incomingAddr', s1) \<Rightarrow>
          if \<not> received then Inr s1
          else and_then (PerformRequest X req (m_UDPServerDetails s1) (- 1) incomingAddr' s1)
                 (\<lambda>(r, s2). Inr s2))"

fun ListenForUDPMessages :: "externals \<Rightarrow> ClientRequest \<Rightarrow> sockaddr_in \<Rightarrow> nat \<Rightarrow> server \<Rightarrow> server run" where
  "ListenForUDPMessages X req0 incomingAddr 0 s =
     (if alive (m_UDPServerDetails s) then Waiting s else Finished s)"
| "ListenForUDPMessages X req0 incomingAddr (Suc n) s =
     (if alive (m_UDPServerDetails s) then
        (case ListenForUDPMessages_iteration X req0 incomingAddr s of
           Inl f \<Rightarrow> Crashed f
         | Inr s' \<Rightarrow> ListenForUDPMessages X req0 incomingAddr n s')
      else Finished s)"

section \<open>Keep-alive monitor\<close>

definition CreateKeepAlivePacket :: Packet where
  "CreateKeepAlivePacket = \<lparr>pkt_action = kKeepAlive, flags = 0, buffLen = 0, buffer = []\<rparr>"

definition OnKeepAliveEcho :: "externals \<Rightarrow> int \<Rightarrow> BYTESTRING \<Rightarrow> server \<Rightarrow> server" where
  "OnKeepAliveEcho X cuid receivedEncrypted s =
     (case GetClientPtr cuid s of
        None \<Rightarrow> s
      | Some client \<Rightarrow>
          (let receivedDecrypted = RSADecrypt X receivedEncrypted (priv (m_SessionKeys s)) True in
           if \<not> GoodDecrypt X receivedDecrypted then
             modify_client cuid (\<lambda>c. c\<lparr>KeepAliveSuccess := False, KeepAliveProcess := False\<rparr>) s
           else (let echoed = DeserializePacket X receivedDecrypted in
                 if pkt_action echoed = kKeepAlive then
                   modify_client cuid (\<lambda>c. c\<lparr>KeepAliveProcess := False, KeepAliveSuccess := True\<rparr>) s
                 else modify_client cuid (\<lambda>c. c\<lparr>KeepAliveSuccess := False\<rparr>) s)))"

text \<open>
  The inner wait of \<open>SendKeepAlivePackets\<close>. The receive thread runs beside it: the head
  of \<open>echoes\<close> is the frame, if any, that thread hands to \<open>OnKeepAliveEcho\<close> during this
  \<open>Sleep(100)\<close>.
\<close>

function KeepAlive_wait :: "externals \<Rightarrow> int \<Rightarrow> BYTESTRING option list \<Rightarrow> nat \<Rightarrow> server \<Rightarrow> server" where
  "KeepAlive_wait X client echoes timePassedMs s =
     (let s1 = (case echoes of Some frame # rest \<Rightarrow> OnKeepAliveEcho X client frame s | _ \<Rightarrow> s) in
      if timePassedMs + 100 < keepAliveTimeoutMs
         \<and> \<not> KeepAliveSuccess (deref client s1) \<and> KeepAliveProcess (deref client s1)
      then KeepAlive_wait X client (tl echoes) (timePassedMs + 100) s1
      else s1)"
  by pat_completeness auto
termination
  by (relation "measure (\<lambda>(X, client, echoes, timePassedMs, s). keepAliveTimeoutMs - timePassedMs)") auto

declare KeepAlive_wait.simps [simp del]

text \<open>
  The frames handed over during a wait leave the probe unanswered: none of them, up to
  the first one that fails the validity check, decrypts to a packet with the action
  \<open>kKeepAlive\<close>. \<open>key\<close> is the server's private session key.
\<close>

fun probe_unanswered :: "externals \<Rightarrow> RSA option \<Rightarrow> BYTESTRING option list \<Rightarrow> bool" where
  "probe_unanswered X key [] = True"
| "probe_unanswered X key (None # rest) = probe_unanswered X key rest"
| "probe_unanswered X key (Some f # rest) =
     (if \<not> GoodDecrypt X (RSADecrypt X f key True) then True
      else if pkt_action (DeserializePacket X (RSADecrypt X f key True)) = kKeepAlive then False
      else probe_unanswered X key rest)"

text \<open>One pass through the body of the outer loop; the \<open>bool\<close> says whether the loop
  goes on. Socket timeouts are part of the endpoint's behaviour in this model.\<close>

definition SendKeepAlivePackets_round :: "externals \<Rightarrow> int \<Rightarrow> BYTESTRING option list \<Rightarrow> server \<Rightarrow> bool \<times> server" where
  "SendKeepAlivePackets_round X client echoes s =
     (let s1 = modify_client client (\<lambda>c. c\<lparr>KeepAliveSuccess := False\<rparr>) s;
          encryptedOriginal = RSAEncrypt X (SerializePacket X CreateKeepAlivePacket)
                                (ClientPublicKey (deref client s1)) False
      in case TransmitData (RSAEncrypt X) encryptedOriginal (Socket (deref client s1)) TCP NULL_ADDR
                False None False s1 of
           (sent, s2) \<Rightarrow>
             if \<not> sent then (False, RemoveClientFromServer client s2)
             else (let s3 = modify_client client (\<lambda>c. c\<lparr>KeepAliveProcess := True\<rparr>) s2;
                       s4 = KeepAlive_wait X client echoes 0 s3;
                       s5 = modify_client client (\<lambda>c. c\<lparr>KeepAliveProcess := False\<rparr>) s4
                   in if \<not> KeepAliveSuccess (deref client s5) then (False, RemoveClientFromServer client s5)
                      else (Alive (deref client s5), s5)))"

fun SendKeepAlivePackets_loop :: "externals \<Rightarrow> int \<Rightarrow> BYTESTRING option list list \<Rightarrow> server \<Rightarrow> server run" where
  "SendKeepAlivePackets_loop X client [] s = Waiting s"
| "SendKeepAlivePackets_loop X client (echoes # rounds) s =
     (case SendKeepAlivePackets_round X client echoes s of
        (again, s') \<Rightarrow> if again then SendKeepAlivePackets_loop X client rounds s' else Finished s')"

definition SendKeepAlivePackets :: "externals \<Rightarrow> int \<Rightarrow> BYTESTRING option list list \<Rightarrow> server \<Rightarrow> server run" where
  "SendKeepAlivePackets X cuid rounds s =
     (case GetClientPtr cuid s of
        None \<Rightarrow> Finished s
      | Some client \<Rightarrow> SendKeepAlivePackets_loop X cuid rounds s)"

section \<open>Responses and the receive loop\<close>

text \<open>
  \<open>WaitForClientResponse\<close>: the result is the returned response and the state. The
  only assignment of \<open>FALSE\<close> to \<open>ExpectingResponse\<close> is the one before the last
  \<open>return\<close>.
\<close>

definition WaitForClientResponse :: "externals \<Rightarrow> int \<Rightarrow> server \<Rightarrow> ClientResponse \<times> server" where
  "WaitForClientResponse X cuid s =
     (case GetClientPtr cuid s of
        None \<Rightarrow> (ResponseZero X, s)
      | Some client \<Rightarrow>
          (let s1 = modify_client cuid (\<lambda>c. c\<lparr>ExpectingResponse := True\<rparr>) s in
           case ReceiveData (DeserializeBytes X) [] [] (Socket (deref cuid s1)) TCP NULL_ADDR s1 of
             (received, encrypted, a, s2) \<Rightarrow>
               if last_error s2 = WSAETIMEDOUT then ((ResponseZero X)\<lparr>responseCode := kTimeout\<rparr>, s2)
               else if \<not> received then (ResponseZero X, s2)
               else (let decrypted = RSADecrypt X encrypted (priv (m_SessionKeys s2)) True in
                     if \<not> GoodDecrypt X decrypted then (ResponseZero X, s2)
                     else (DeserializeResponse X decrypted,
                           modify_client cuid (\<lambda>c. c\<lparr>ExpectingResponse := False\<rparr>) s2))))"

text \<open>\<open>PingClient\<close>; \<open>pingFlags\<close> is \<open>RESPOND_WITH_STATUS | PACKET_IS_A_COMMAND\<close>, two
  constants of a header that is not among the sources.\<close>

definition PingClient :: "externals \<Rightarrow> nat \<Rightarrow> int \<Rightarrow> server \<Rightarrow> ClientResponse \<times> server" where
  "PingClient X pingFlags cuid s =
     (if \<not> ClientIsInClientList cuid s then (ResponseZero X, s)
      else (let client = deref cuid s in
            if Socket client = INVALID_SOCKET then (ResponseZero X, s)
            else (let pingCommand = \<lparr>pkt_action = kPingClient, flags = pingFlags, buffLen = 0, buffer = []\<rparr> in
                  case TransmitData (RSAEncrypt X) (SerializePacket X pingCommand) (Socket client) TCP
                         NULL_ADDR True (ClientPublicKey client) False s of
                    (sent, s1) \<Rightarrow>
                      if \<not> sent then (ResponseZero X, s1)
                      else (case WaitForClientResponse X cuid s1 of
                              (response, s2) \<Rightarrow>
                                if responseCode response = kTimeout then (ResponseZero X, s2)
                                else if responseCode response = kResponseError then (ResponseZero X, s2)
                                else (response, s2)))))"

text \<open>
  One iteration of the do-while loop of \<open>TCPReceiveMessagesFromClient\<close>, with the value
  of the loop condition. While the thread is blocked in the receive, the keep-alive
  thread may write the session's flags: \<open>concurrent\<close> is what it did to the record.
\<close>

definition receive_loop_condition :: "int \<Rightarrow> server \<Rightarrow> bool" where
  "receive_loop_condition cuid s =
     (Alive (deref cuid s) \<and> Socket (deref cuid s) \<noteq> INVALID_SOCKET)"

definition TCPReceiveMessagesFromClient_iteration ::
  "externals \<Rightarrow> (Client \<Rightarrow> Client) \<Rightarrow> int \<Rightarrow> server \<Rightarrow> fault + (bool \<times> server)" where
  "TCPReceiveMessagesFromClient_iteration X concurrent cuid s =
     (let client = deref cuid s in
      if ExpectingResponse client \<or> KeepAliveProcess client then Inr (receive_loop_condition cuid s, s)
      else case ReceiveData (DeserializeBytes X) [] [] (Socket client) TCP NULL_ADDR s of
        (received, encrypted, a, s0) \<Rightarrow>
          (let s1 = modify_client cuid concurrent s0 in
           if \<not> received then Inr (receive_loop_condition cuid s1, s1)
           else if KeepAliveProcess (deref cuid s1) then
             (let s2 = OnKeepAliveEcho X (ClientUID (deref cuid s1)) encrypted s1 in
              Inr (receive_loop_condition cuid s2, s2))
           else (let decrypted = RSADecrypt X encrypted (priv (m_SessionKeys s1)) True in
                 if \<not> GoodDecrypt X decrypted then Inr (receive_loop_condition cuid s1, s1)
                 else (let request = DeserializeRequest X decrypted in
                       and_then (PerformRequest X request (m_TCPServerDetails s1) cuid NULL_ADDR s1)
                         (\<lambda>(performed, s2). Inr (receive_loop_condition cuid s2, s2))))))"

fun TCPReceiveMessagesFromClient_loop ::
  "externals \<Rightarrow> (Client \<Rightarrow> Client) list \<Rightarrow> int \<Rightarrow> server \<Rightarrow> server run" where
  "TCPReceiveMessagesFromClient_loop X [] cuid s = Waiting s"
| "TCPReceiveMessagesFromClient_loop X (concurrent # rest) cuid s =
     (case TCPReceiveMessagesFromClient_iteration X concurrent cuid s of
        Inl f \<Rightarrow> Crashed f
      | Inr (again, s') \<Rightarrow>
          if again then TCPReceiveMessagesFromClient_loop X rest cuid s' else Finished s')"

definition TCPReceiveMessagesFromClient ::
  "externals \<Rightarrow> nat \<Rightarrow> (Client \<Rightarrow> Client) list \<Rightarrow> int \<Rightarrow> server \<Rightarrow> server run" where
  "TCPReceiveMessagesFromClient X pingFlags schedule cuid s =
     (case GetClientPtr cuid s of
        None \<Rightarrow> Finished s
      | Some client \<Rightarrow> TCPReceiveMessagesFromClient_loop X schedule cuid (snd (PingClient X pingFlags cuid s)))"

section \<open>Concrete states and capabilities\<close>

text \<open>
  A loopback transport from socket \<open>a\<close> to socket \<open>b\<close>: everything written on \<open>a\<close>
  becomes readable on \<open>b\<close>, one piece per write.
\<close>

definition loopback :: "SOCKET \<Rightarrow> SOCKET \<Rightarrow> 'a netstate_scheme \<Rightarrow> 'a netstate_scheme" where
  "loopback a b w =
     set_endpoint b ((sockets w b)\<lparr>rx := rx (sockets w b) @ tx (sockets w a)\<rparr>)
       (set_endpoint a ((sockets w a)\<lparr>tx := []\<rparr>) w)"

text \<open>The bytes a stream socket will still deliver.\<close>

definition stream :: "'a netstate_scheme \<Rightarrow> SOCKET \<Rightarrow> BYTESTRING" where
  "stream w s = concat (map snd (rx (sockets w s)))"

text \<open>Two states that differ in the sockets and the last error code only.\<close>

definition net_step :: "server \<Rightarrow> server \<Rightarrow> bool" where
  "net_step s s' =
     (m_ClientList s' = m_ClientList s \<and> m_TCPServerDetails s' = m_TCPServerDetails s \<and>
      m_UDPServerDetails s' = m_UDPServerDetails s \<and> m_SessionKeys s' = m_SessionKeys s \<and>
      state_file s' = state_file s \<and> threads s' = threads s \<and> TCPPort s' = TCPPort s \<and>
      UDPPort s' = UDPPort s \<and> m_WSAInitialized s' = m_WSAInitialized s)"

definition idle_endpoint :: endpoint where
  "idle_endpoint = \<lparr>rx = [], rx_end = PeerClosed, tx_left = None, tx = [], is_closed = False\<rparr>"

definition test_net :: netstate where
  "test_net = \<lparr>sockets = (\<lambda>s. idle_endpoint), last_error = 0, m_WSAInitialized = True\<rparr>"

definition test_externals :: externals where
  "test_externals =
     \<lparr>RSAEncrypt = (\<lambda>b k p. 69 # b),
      RSADecrypt = (\<lambda>b k p. case b of [] \<Rightarrow> [] | x # r \<Rightarrow> if x = 69 then r else []),
      GoodDecrypt = (\<lambda>b. b \<noteq> []),
      SerializePacket = (\<lambda>p. [80]),
      SerializeServer = (\<lambda>sv. [83]),
      DeserializeBytes = (\<lambda>b. b),
      DeserializeRequest = (\<lambda>b. \<lparr>valid = True, action = (if b = [0] then kDisconnectClient else kOtherMessage 1)\<rparr>),
      DeserializePacket = (\<lambda>b. \<lparr>pkt_action = kKeepAlive, flags = 0, buffLen = 0, buffer = []\<rparr>),
      DeserializeResponse = (\<lambda>b. \<lparr>responseCode = kResponseOk, response_body = b\<rparr>),
      BytestringToString = (\<lambda>b. map (\<lambda>x. CHR ''x'') b),
      i2d_RSAPublicKey = (\<lambda>k. k),
      d2i_RSAPublicKey = (\<lambda>b n. Some b),
      GetHostByName = Some 2130706433,
      ResponseZero = \<lparr>responseCode = kOtherCode 0, response_body = []\<rparr>,
      iteration_order = (\<lambda>l. l)\<rparr>"

definition test_client :: "int \<Rightarrow> SOCKET \<Rightarrow> Client" where
  "test_client cuid sock = (new_Client cuid sock 0)\<lparr>Alive := True, ClientPublicKey := Some [3]\<rparr>"

definition test_server :: "(SOCKET \<Rightarrow> endpoint) \<Rightarrow> (int \<times> Client) list \<Rightarrow> server" where
  "test_server net clients =
     \<lparr>sockets = net, last_error = 0, m_WSAInitialized = True,
      m_ClientList = clients,
      m_TCPServerDetails = \<lparr>sfd = 1, type = SOCK_STREAM, addr = 0, port = 5000, alive = True, accepting = False\<rparr>,
      m_UDPServerDetails = \<lparr>sfd = 2, type = SOCK_DGRAM, addr = 0, port = 5001, alive = True, accepting = False\<rparr>,
      m_SessionKeys = \<lparr>pub = Some [1], priv = Some [2]\<rparr>,
      TCPPort = 5000, UDPPort = 5001,
      state_file = \<lparr>json_server_info = None, json_client_list = None\<rparr>,
      threads = []\<rparr>"

text \<open>A stream that announces four bytes and delivers the first of them alone.\<close>

definition short_read_net :: netstate where
  "short_read_net =
     test_net\<lparr>sockets := (sockets test_net)
        (5 := idle_endpoint\<lparr>rx := [(0, u32_bytes 4), (0, [170]), (0, [187, 204, 221])]\<rparr>)\<rparr>"

text \<open>A server with one session, number 7 on socket 5, whose endpoint is \<open>e\<close>.\<close>

definition one_session :: "endpoint \<Rightarrow> server" where
  "one_session e = test_server ((sockets test_net)(5 := e)) [(7, test_client 7 5)]"

text \<open>One frame on the wire: the prefix and the payload.\<close>

definition frame :: "BYTESTRING \<Rightarrow> (sockaddr_in \<times> BYTESTRING) list" where
  "frame payload = [(0, u32_bytes (length payload)), (0, payload)]"

text \<open>A server without sessions whose UDP socket (number 2) holds one request, the
  datagram with the prefix and the datagram with the payload.\<close>

definition udp_request :: "BYTESTRING \<Rightarrow> server" where
  "udp_request payload = test_server ((sockets test_net)(2 := idle_endpoint\<lparr>rx := frame payload\<rparr>)) []"


text \<open>Two states with the same keys in the client table and the same TCP server record.\<close>

definition same_keys :: "server \<Rightarrow> server \<Rightarrow> bool" where
  "same_keys s s' =
     (map fst (m_ClientList s') = map fst (m_ClientList s) \<and>
      m_TCPServerDetails s' = m_TCPServerDetails s)"

text \<open>A server without sessions and a new connection on socket 5 whose peer sends the
  four bytes of its key length (270) and closes.\<close>

definition half_handshake :: server where
  "half_handshake = test_server ((sockets test_net)(5 := idle_endpoint\<lparr>rx := [(0, u32_bytes 270)]\<rparr>)) []"

text \<open>A server whose client table holds \<open>maxConnections\<close> sessions, numbered from 0.\<close>

definition full_server :: server where
  "full_server = test_server (sockets test_net) (map (\<lambda>i. (int i, test_client (int i) (10 + i))) [0..<100])"

text \<open>The same, with a peer that sends the key length 270, three bytes of the key, and
  closes.\<close>

definition partial_key :: server where
  "partial_key =
     test_server ((sockets test_net)(5 := idle_endpoint\<lparr>rx := [(0, u32_bytes 270), (0, [1, 2, 3])]\<rparr>))
       [(7, test_client 7 5)]"

section \<open>Lists, bytes and the length prefix\<close>

lemma replicate_numeral: "replicate (numeral k) x = x # replicate (pred_numeral k) x"
  by (simp add: numeral_eq_Suc)

lemma length_u32_bytes: "length (u32_bytes n) = 4"
  by (simp add: u32_bytes_def)

lemma u32_value_bytes: "u32_value (u32_bytes n) = n mod 4294967296"
proof -
  have d1: "n div 256 div 256 = n div 65536"
    using div_mult2_eq [of n 256 256] by simp
  have d2: "n div 65536 div 256 = n div 16777216"
    using div_mult2_eq [of n 65536 256] by simp
  have a: "n mod 4294967296 = 256 * (n div 256 mod 16777216) + n mod 256"
    using mod_mult2_eq [of n 256 16777216] by simp
  have b: "n div 256 mod 16777216 = 256 * (n div 65536 mod 65536) + n div 256 mod 256"
    using mod_mult2_eq [of "n div 256" 256 65536] by (simp add: d1)
  have c: "n div 65536 mod 65536 = 256 * (n div 16777216 mod 256) + n div 65536 mod 256"
    using mod_mult2_eq [of "n div 65536" 256 256] by (simp add: d2)
  show ?thesis
    by (simp add: u32_value_def u32_bytes_def unat_of_nat a b c)
qed

lemma concat_filter_nonempty:
  "concat (map snd (filter (\<lambda>(a, c). c \<noteq> []) xs)) = concat (map snd xs)"
  by (induction xs) auto

section \<open>Reads from a stream socket\<close>

text \<open>A read that returns a positive count stored exactly that many bytes, no more than
  asked for, and they are the next bytes of the stream.\<close>

lemma Receive_positive:
  assumes "Receive s len w = (r, got, w')" and "0 < r"
  shows "length got = nat r \<and> r \<le> len \<and> stream w s = got @ stream w' s"
proof -
  let ?e = "sockets w s"
  from assms have opn: "\<not> is_closed ?e" and len: "0 < len"
    by (auto simp: Receive_def Let_def SOCKET_ERROR_def split: if_splits)
  show ?thesis
  proof (cases "filter (\<lambda>(a, c). c \<noteq> []) (rx ?e)")
    case Nil
    with assms opn len show ?thesis
      by (auto simp: Receive_def Let_def rx_exhausted_def SOCKET_ERROR_def split: rx_end.splits)
  next
    case (Cons ac cs)
    obtain a c where ac: "ac = (a, c)" by (cases ac)
    have eq: "concat (map snd (rx ?e)) = c @ concat (map snd cs)"
      using concat_filter_nonempty [of "rx ?e"] Cons ac by simp
    from assms opn len Cons ac eq show ?thesis
      by (auto simp: Receive_def Let_def stream_def set_endpoint_def min_def
               split: if_splits)
  qed
qed

text \<open>The loop of \<open>ReceiveTCPLargeData\<close> reports success only with the buffer full.\<close>

lemma ReceiveTCPLargeData_loop_complete:
  "ReceiveTCPLargeData_loop s n k buf w = (True, buf', w') \<Longrightarrow> 0 \<le> k \<Longrightarrow> k \<le> n \<Longrightarrow>
   length buf = nat n \<Longrightarrow>
   \<exists>taken. buf' = take (nat k) buf @ taken \<and> length taken = nat (n - k) \<and>
           stream w s = taken @ stream w' s"
proof (induction s n k buf w rule: ReceiveTCPLargeData_loop.induct)
  case (1 s toReceive bytesReceived buffer w)
  show ?case
  proof (cases "bytesReceived < toReceive")
    case False
    with "1.prems" ReceiveTCPLargeData_loop.simps [of s toReceive bytesReceived buffer w]
    show ?thesis by simp
  next
    case True
    obtain received got w1 where rc: "Receive s (toReceive - bytesReceived) w = (received, got, w1)"
      by (cases "Receive s (toReceive - bytesReceived) w")
    note unfold = ReceiveTCPLargeData_loop.simps [of s toReceive bytesReceived buffer w]
    from "1.prems"(1) True rc unfold have pos: "0 < received"
      by (auto split: if_splits)
    from Receive_positive [OF rc pos]
    have lg: "length got = nat received" and le: "received \<le> toReceive - bytesReceived"
      and st: "stream w s = got @ stream w1 s" by auto
    let ?buf1 = "write_at buffer (nat bytesReceived) got"
    have len1: "length ?buf1 = nat toReceive"
      using "1.prems" lg le pos by (simp add: write_at_def)
    have rec: "ReceiveTCPLargeData_loop s toReceive (bytesReceived + received) ?buf1 w1 = (True, buf', w')"
      using "1.prems"(1) True rc pos unfold by simp
    from "1.IH" [OF True rc [symmetric] refl _ rec _ _ len1] pos le "1.prems"
    obtain taken where t: "buf' = take (nat (bytesReceived + received)) ?buf1 @ taken"
      "length taken = nat (toReceive - (bytesReceived + received))"
      "stream w1 s = taken @ stream w' s"
      by auto
    have pre: "take (nat (bytesReceived + received)) ?buf1 = take (nat bytesReceived) buffer @ got"
      using "1.prems" lg le pos by (simp add: write_at_def nat_add_distrib)
    show ?thesis
      using t pre st lg le pos "1.prems"
      by (intro exI [of _ "got @ taken"]) (auto simp: nat_diff_distrib nat_add_distrib)
  qed
qed

text \<open>
  \<open>ReceiveTCPLargeData\<close>, the looping sibling of \<open>ReceiveData\<close>: when it reports success,
  the buffer has exactly the announced size and holds the bytes that followed the
  prefix on the stream.
\<close>

lemma ReceiveTCPLargeData_complete:
  assumes "ReceiveTCPLargeData data s w = Inr (True, buf, w')"
  shows "\<exists>prefix. prefix \<noteq> [] \<and> length buf = nat (i32_value prefix) \<and>
                  stream w s = prefix @ buf @ stream w' s"
proof -
  obtain received got w1 where rc: "Receive s 4 w = (received, got, w1)"
    by (cases "Receive s 4 w")
  from assms rc have pos: "0 < received" and nonneg: "0 \<le> i32_value got"
    by (auto simp: ReceiveTCPLargeData_def Let_def split: if_splits)
  obtain ok buffer w2 where lp:
    "ReceiveTCPLargeData_loop s (i32_value got) 0 (resize [] (nat (i32_value got))) w1 = (ok, buffer, w2)"
    by (cases "ReceiveTCPLargeData_loop s (i32_value got) 0 (resize [] (nat (i32_value got))) w1")
  from assms rc pos nonneg lp have res: "ok = True" "buffer = buf" "w2 = w'"
    by (auto simp: ReceiveTCPLargeData_def Let_def split: if_splits)
  from lp res
  have "ReceiveTCPLargeData_loop s (i32_value got) 0 (resize [] (nat (i32_value got))) w1 = (True, buf, w')"
    by simp
  from ReceiveTCPLargeData_loop_complete [OF this] nonneg
  have "length buf = nat (i32_value got)" and "stream w1 s = buf @ stream w' s"
    by (auto simp: resize_def)
  moreover from Receive_positive [OF rc pos] pos
  have "got \<noteq> []" and "stream w s = got @ stream w1 s" by auto
  ultimately show ?thesis by auto
qed

section \<open>Framing\<close>

text \<open>
  Claim C6 says that every TCP receive loops until the buffer of the announced size is
  full or a read fails, and never reports a partially filled buffer as success.
  \<open>ReceiveData\<close> reads the payload once: on a stream that announces four bytes and
  delivers the first of them alone, it returns true with the buffer \<open>AA 00 00 00\<close>
  and leaves the other three bytes unread, where \<open>ReceiveTCPLargeData\<close> returns the four
  bytes.
\<close>

theorem ReceiveData_reports_short_read_as_success:
  "(case ReceiveData id [] [] 5 TCP NULL_ADDR short_read_net of
      (received, data, from, w) \<Rightarrow>
        received \<and> data = [170, 0, 0, 0] \<and> rx (sockets w 5) = [(0, [187, 204, 221])])
   \<and> (case ReceiveTCPLargeData [] 5 short_read_net of
        Inr (received, data, w) \<Rightarrow> received \<and> data = [170, 187, 204, 221] \<and> rx (sockets w 5) = []
      | Inl f \<Rightarrow> False)"
  by (simp add: ReceiveData_def ReceiveTCPLargeData_def ReceiveTCPLargeData_loop.simps Receive_def
        short_read_net_def test_net_def idle_endpoint_def u32_bytes_def u32_value_def i32_value_def
        resize_def write_at_def int_of_size_def i32_of_u32_def set_endpoint_def Let_def
        replicate_numeral)

text \<open>
  On the loopback transport a non-empty payload sent by \<open>TransmitData\<close> over TCP comes
  back from \<open>ReceiveData\<close> unchanged (through the deserializer \<open>D\<close> of the receiving
  type), for every length below \<open>2^31\<close>, so for the lengths 1 and 65536.
\<close>

lemma framing_round_trip_nonempty:
  assumes ne: "B \<noteq> []" and len: "length B < 2147483648"
    and ab: "a \<noteq> b"
    and ea: "sockets w a = idle_endpoint" and eb: "sockets w b = idle_endpoint"
    and init: "m_WSAInitialized w"
  shows "case TransmitData E B a TCP NULL_ADDR False k False w of
           (sent, w1) \<Rightarrow> sent \<and>
             (case ReceiveData D [] d0 b TCP NULL_ADDR (loopback a b w1) of
                (received, data, from, w2) \<Rightarrow> received \<and> data = D B)"
proof -
  have sz: "length B mod 4294967296 = length B" using len by simp
  have nz: "u32_bytes (length B) \<noteq> []" by (simp add: u32_bytes_def)
  have l4: "take 4 (u32_bytes (length B)) = u32_bytes (length B)" by (simp add: u32_bytes_def)
  have min4: "min 4 (length (u32_bytes (length B))) = 4" by (simp add: u32_bytes_def)
  have i: "int_of_size (length B) = int (length B)"
    using len by (simp add: int_of_size_def i32_of_u32_def)
  show ?thesis
    using ne ab ea eb init
    by (simp add: TransmitData_def Send_def SendTo_def Let_def SOCKET_ERROR_def set_endpoint_def
          idle_endpoint_def loopback_def ReceiveData_def Receive_def sz nz l4 min4 i length_u32_bytes
          u32_value_bytes resize_def write_at_def)
qed

text \<open>
  Claim C7 says that a frame sent with the length-prefixed framing and received over a
  loopback transport yields the payload unchanged, for the lengths 0, 1 and 65536. For
  the empty payload \<open>TransmitData\<close> succeeds (a write of no bytes returns 0, which is not
  \<open>SOCKET_ERROR\<close>) and \<open>ReceiveData\<close> returns false: its second read asks for no bytes,
  returns 0, and the result is \<open>received > 0\<close>. The pair \<open>SendTCPLargeData\<close> and
  \<open>ReceiveTCPLargeData\<close> carries the empty payload over the same transport.
\<close>

theorem framing_round_trip_fails_for_empty_payload:
  "(case TransmitData E [] 3 TCP NULL_ADDR False k False test_net of
      (sent, w1) \<Rightarrow> sent \<and> \<not> fst (ReceiveData id [] [] 4 TCP NULL_ADDR (loopback 3 4 w1)))
   \<and> (case SendTCPLargeData [] 3 test_net of
        (sent, w1) \<Rightarrow> sent \<and>
          (case ReceiveTCPLargeData [1] 4 (loopback 3 4 w1) of
             Inr (received, data, w2) \<Rightarrow> received \<and> data = []
           | Inl f \<Rightarrow> False))"
  by (simp add: TransmitData_def SendTCPLargeData_def SendTCPLargeData_loop.simps
        ReceiveTCPLargeData_def ReceiveTCPLargeData_loop.simps Send_def SendTo_def Let_def
        SOCKET_ERROR_def set_endpoint_def idle_endpoint_def loopback_def ReceiveData_def Receive_def
        test_net_def int_of_size_def i32_of_u32_def u32_value_def i32_value_def u32_bytes_def
        resize_def write_at_def)

section \<open>The client table and the sockets\<close>

lemma map_of_modify_entry:
  "map_of (modify_entry k f l) k' = (if k' = k then map_option f (map_of l k) else map_of l k')"
  by (induction l) auto

lemma map_fst_modify_entry: "map fst (modify_entry k f l) = map fst l"
  by (induction l) auto

lemma length_modify_entry: "length (modify_entry k f l) = length l"
  by (induction l) auto

lemma GetClientPtr_map_of: "GetClientPtr cuid s = map_of (m_ClientList s) cuid"
  by (simp add: GetClientPtr_def ClientIsInClientList_def)

lemma deref_modify_client:
  "map_of (m_ClientList s) cuid = Some c \<Longrightarrow> deref cuid (modify_client cuid f s) = f c"
  by (simp add: deref_def modify_client_def map_of_modify_entry)

lemma deref_Some: "map_of (m_ClientList s) cuid = Some c \<Longrightarrow> deref cuid s = c"
  by (simp add: deref_def)

lemma map_of_modify_client:
  "map_of (m_ClientList (modify_client k f s)) k' =
     (if k' = k then map_option f (map_of (m_ClientList s) k) else map_of (m_ClientList s) k')"
  by (simp add: modify_client_def map_of_modify_entry)

lemma keys_modify_client: "map fst (m_ClientList (modify_client k f s)) = map fst (m_ClientList s)"
  by (simp add: modify_client_def map_fst_modify_entry)

lemma fields_modify_client:
  "m_SessionKeys (modify_client k f s) = m_SessionKeys s"
  "last_error (modify_client k f s) = last_error s"
  "sockets (modify_client k f s) = sockets s"
  "m_TCPServerDetails (modify_client k f s) = m_TCPServerDetails s"
  by (simp_all add: modify_client_def)

lemma net_step_refl: "net_step s s"
  by (simp add: net_step_def)

lemma net_step_trans: "net_step s s' \<Longrightarrow> net_step s' s'' \<Longrightarrow> net_step s s''"
  by (simp add: net_step_def)

lemma Receive_net_step: "Receive sock len s = (r, got, s') \<Longrightarrow> net_step s s'"
  by (auto simp: net_step_def Receive_def Let_def rx_exhausted_def set_endpoint_def
           split: if_splits list.splits rx_end.splits)

lemma ReceiveFrom_net_step: "ReceiveFrom sock len s = (r, got, from, s') \<Longrightarrow> net_step s s'"
  by (auto simp: net_step_def ReceiveFrom_def Let_def rx_exhausted_def set_endpoint_def
           split: if_splits list.splits rx_end.splits)

lemma SendTo_net_step: "SendTo sock bytes a s = (r, s') \<Longrightarrow> net_step s s'"
  by (auto simp: net_step_def SendTo_def Let_def set_endpoint_def split: if_splits)

lemma Send_net_step: "Send sock bytes s = (r, s') \<Longrightarrow> net_step s s'"
  by (simp add: Send_def SendTo_net_step)

lemma CloseSocket_net_step: "net_step s (CloseSocket sock s)"
  by (simp add: net_step_def CloseSocket_def set_endpoint_def)

lemma TransmitData_net_step:
  assumes "TransmitData E message sock t a e k p s = (r, s')"
  shows "net_step s s'"
proof (cases t)
  case TCP
  obtain r1 s1 where 1: "Send sock (u32_bytes (length (if e then E message k p else message) mod 4294967296)) s = (r1, s1)"
    by (cases "Send sock (u32_bytes (length (if e then E message k p else message) mod 4294967296)) s")
  obtain r2 s2 where 2: "Send sock (if e then E message k p else message) s1 = (r2, s2)"
    by (cases "Send sock (if e then E message k p else message) s1")
  from assms TCP 1 2 have "s' = s1 \<or> s' = s2"
    by (auto simp: TransmitData_def Let_def split: if_splits)
  with Send_net_step [OF 1] Send_net_step [OF 2] show ?thesis
    by (auto intro: net_step_trans)
next
  case UDP
  obtain r1 s1 where 1: "SendTo sock (u32_bytes (length (if e then E message k p else message) mod 4294967296)) a s = (r1, s1)"
    by (cases "SendTo sock (u32_bytes (length (if e then E message k p else message) mod 4294967296)) a s")
  obtain r2 s2 where 2: "SendTo sock (if e then E message k p else message) a s1 = (r2, s2)"
    by (cases "SendTo sock (if e then E message k p else message) a s1")
  from assms UDP 1 2 have "s' = s1 \<or> s' = s2"
    by (auto simp: TransmitData_def Let_def split: if_splits)
  with SendTo_net_step [OF 1] SendTo_net_step [OF 2] show ?thesis
    by (auto intro: net_step_trans)
qed

lemma ReceiveData_net_step:
  assumes "ReceiveData D b0 d0 sock t a s = (r, d, a', s')"
  shows "net_step s s'"
proof (cases "m_WSAInitialized s")
  case False
  with assms show ?thesis by (simp add: ReceiveData_def net_step_refl)
next
  case True
  show ?thesis
  proof (cases t)
    case TCP
    obtain r1 g1 s1 where 1: "Receive sock 4 s = (r1, g1, s1)" by (cases "Receive sock 4 s")
    obtain r2 g2 s2 where 2:
      "Receive sock (int_of_size (length (resize b0 (u32_value g1)))) s1 = (r2, g2, s2)"
      by (cases "Receive sock (int_of_size (length (resize b0 (u32_value g1)))) s1")
    from assms True TCP 1 2 have "s' = s1 \<or> s' = s2"
      by (auto simp: ReceiveData_def Let_def split: if_splits)
    with Receive_net_step [OF 1] Receive_net_step [OF 2] show ?thesis
      by (auto intro: net_step_trans)
  next
    case UDP
    obtain r1 g1 f1 s1 where 1: "ReceiveFrom sock 4 s = (r1, g1, f1, s1)"
      by (cases "ReceiveFrom sock 4 s")
    obtain r2 g2 f2 s2 where 2:
      "ReceiveFrom sock (int_of_size (length (resize b0 (u32_value g1)))) s1 = (r2, g2, f2, s2)"
      by (cases "ReceiveFrom sock (int_of_size (length (resize b0 (u32_value g1)))) s1")
    from assms True UDP 1 2 have "s' = s1 \<or> s' = s2"
      by (auto simp: ReceiveData_def Let_def split: if_splits)
    with ReceiveFrom_net_step [OF 1] ReceiveFrom_net_step [OF 2] show ?thesis
      by (auto intro: net_step_trans)
  qed
qed

lemmas net_defs = Receive_def ReceiveFrom_def Send_def SendTo_def CloseSocket_def set_endpoint_def
  rx_exhausted_def TransmitData_def ReceiveData_def Let_def SOCKET_ERROR_def NULL_ADDR_def
  INVALID_SOCKET_def WSAETIMEDOUT_def WSAECONNRESET_def WSAENOTSOCK_def WSAEMSGSIZE_def WSAEFAULT_def
  u32_bytes_def u32_value_def i32_value_def i32_bytes_def i32_of_u32_def int_of_size_def
  resize_def write_at_def replicate_numeral

lemmas table_defs = GetClientPtr_def ClientIsInClientList_def deref_def modify_client_def
  AddToClientList_def erase_def Disconnect_def RemoveClientFromServer_def

lemmas test_defs = one_session_def test_server_def test_client_def new_Client_def test_net_def
  idle_endpoint_def test_externals_def frame_def SOCK_STREAM_def SOCK_DGRAM_def

section \<open>Waiting for a response\<close>

text \<open>After \<open>WaitForClientResponse\<close> on an existing session the flag \<open>ExpectingResponse\<close>
  is clear exactly when the call took its last \<open>return\<close>: no timeout, a frame received,
  and a decryption that passed the validity check.\<close>

lemma WaitForClientResponse_flag:
  assumes c: "map_of (m_ClientList s) cuid = Some c"
    and rd: "ReceiveData (DeserializeBytes X) [] [] (Socket c) TCP NULL_ADDR
               (modify_client cuid (\<lambda>c. c\<lparr>ExpectingResponse := True\<rparr>) s) = (received, encrypted, a, s2)"
  shows "ExpectingResponse (deref cuid (snd (WaitForClientResponse X cuid s))) =
         (\<not> (last_error s2 \<noteq> WSAETIMEDOUT \<and> received \<and>
              GoodDecrypt X (RSADecrypt X encrypted (priv (m_SessionKeys s)) True)))"
proof -
  let ?s1 = "modify_client cuid (\<lambda>c. c\<lparr>ExpectingResponse := True\<rparr>) s"
  have c1: "map_of (m_ClientList ?s1) cuid = Some (c\<lparr>ExpectingResponse := True\<rparr>)"
    using c by (simp add: modify_client_def map_of_modify_entry)
  have k1: "m_SessionKeys ?s1 = m_SessionKeys s" by (simp add: modify_client_def)
  from ReceiveData_net_step [OF rd]
  have l2: "m_ClientList s2 = m_ClientList ?s1" and k2: "m_SessionKeys s2 = m_SessionKeys ?s1"
    by (simp_all add: net_step_def)
  have c2: "map_of (m_ClientList s2) cuid = Some (c\<lparr>ExpectingResponse := True\<rparr>)"
    using c1 l2 by simp
  have d1: "deref cuid ?s1 = c\<lparr>ExpectingResponse := True\<rparr>" using c1 by (simp add: deref_def)
  have d2: "deref cuid s2 = c\<lparr>ExpectingResponse := True\<rparr>" using c2 by (simp add: deref_def)
  have d3: "deref cuid (modify_client cuid (\<lambda>c. c\<lparr>ExpectingResponse := False\<rparr>) s2)
            = c\<lparr>ExpectingResponse := False\<rparr>"
    using deref_modify_client [OF c2] by simp
  show ?thesis
    using c rd d1 d2 d3 k1 k2
    by (simp add: WaitForClientResponse_def GetClientPtr_map_of Let_def)
qed

text \<open>With the flag set the receive loop sleeps and tests its condition, and reads
  nothing: however many iterations it is given, it is still running in the same state.\<close>

lemma receive_loop_skips:
  "ExpectingResponse (deref cuid s) \<Longrightarrow> receive_loop_condition cuid s \<Longrightarrow>
   TCPReceiveMessagesFromClient_loop X schedule cuid s = Waiting s"
  by (induction schedule) (simp_all add: TCPReceiveMessagesFromClient_iteration_def Let_def)

text \<open>
  Claim C10 says that on every return path of \<open>WaitForClientResponse\<close> (success, receive
  timeout, receive failure, decrypt-validity failure) the session's \<open>ExpectingResponse\<close>
  flag is false afterwards, so that the receive loop is never left skipping frames. The
  function sets the flag and clears it before the last \<open>return\<close> only. For session 7,
  when the peer has closed the connection, when the receive times out and when the frame
  fails the validity check, the flag is still set after the call, and the receive loop of
  this live session then never reads again.
\<close>

theorem WaitForClientResponse_leaves_ExpectingResponse_set:
  "(case WaitForClientResponse test_externals 7 (one_session idle_endpoint) of
      (response, s') \<Rightarrow> ExpectingResponse (deref 7 s') \<and>
         TCPReceiveMessagesFromClient_loop test_externals schedule 7 s' = Waiting s')
 \<and> (case WaitForClientResponse test_externals 7 (one_session (idle_endpoint\<lparr>rx_end := RecvTimedOut\<rparr>)) of
      (response, s') \<Rightarrow> ExpectingResponse (deref 7 s') \<and>
         TCPReceiveMessagesFromClient_loop test_externals schedule 7 s' = Waiting s')
 \<and> (case WaitForClientResponse test_externals 7 (one_session (idle_endpoint\<lparr>rx := frame [1, 2, 3]\<rparr>)) of
      (response, s') \<Rightarrow> ExpectingResponse (deref 7 s') \<and>
         TCPReceiveMessagesFromClient_loop test_externals schedule 7 s' = Waiting s')"
proof -
  have flags: "ExpectingResponse (deref 7 (snd (WaitForClientResponse test_externals 7 (one_session e)))) \<and>
      receive_loop_condition 7 (snd (WaitForClientResponse test_externals 7 (one_session e)))"
    if "e = idle_endpoint \<or> e = idle_endpoint\<lparr>rx_end := RecvTimedOut\<rparr> \<or> e = idle_endpoint\<lparr>rx := frame [1, 2, 3]\<rparr>"
    for e
    using that
    by (auto simp: WaitForClientResponse_def receive_loop_condition_def table_defs test_defs net_defs)
  show ?thesis
    using flags [of idle_endpoint] flags [of "idle_endpoint\<lparr>rx_end := RecvTimedOut\<rparr>"]
      flags [of "idle_endpoint\<lparr>rx := frame [1, 2, 3]\<rparr>"]
    by (simp add: split_beta receive_loop_skips)
qed

section \<open>The UDP listener\<close>

lemma PerformRequest_disconnect_on_UDP:
  "valid req \<Longrightarrow> action req = kDisconnectClient \<Longrightarrow> type on \<noteq> SOCK_STREAM \<Longrightarrow>
   PerformRequest X req on cuid incoming s = Inl NullPointerDereference"
  by (simp add: PerformRequest_def)

text \<open>
  Claim C9: a \<open>kDisconnectClient\<close> request that arrives on the UDP server is dispatched
  by the UDP listener with the session identifier \<open>-1\<close>; on the UDP server
  \<open>PerformRequest\<close> leaves \<open>TCPClient\<close> null and the \<open>kDisconnectClient\<close> branch calls
  \<open>Disconnect\<close> through it. So, whenever the listener receives a valid request with that
  action, the iteration of the listener is the dispatch with identifier \<open>-1\<close>, the
  dispatch ends in a null-pointer dereference, and with it the iteration and the
  listener's loop.
\<close>

theorem UDP_disconnect_dereferences_null:
  assumes rd: "ReceiveData (DeserializeRequest X) [] req0 (sfd (m_UDPServerDetails s)) UDP incomingAddr s
                 = (received, req, from, s1)"
    and received: "received"
    and req: "valid req" "action req = kDisconnectClient"
    and udp: "type (m_UDPServerDetails s) = SOCK_DGRAM"
  shows "ListenForUDPMessages_iteration X req0 incomingAddr s
           = and_then (PerformRequest X req (m_UDPServerDetails s) (- 1) from s1) (\<lambda>(r, s2). Inr s2)
       \<and> PerformRequest X req (m_UDPServerDetails s) (- 1) from s1 = Inl NullPointerDereference
       \<and> ListenForUDPMessages_iteration X req0 incomingAddr s = Inl NullPointerDereference
       \<and> (alive (m_UDPServerDetails s) \<longrightarrow>
            ListenForUDPMessages X req0 incomingAddr (Suc n) s = Crashed NullPointerDereference)"
proof -
  from ReceiveData_net_step [OF rd] have same: "m_UDPServerDetails s1 = m_UDPServerDetails s"
    by (simp add: net_step_def)
  have pr: "PerformRequest X req (m_UDPServerDetails s) (- 1) from s1 = Inl NullPointerDereference"
    using req udp by (simp add: PerformRequest_disconnect_on_UDP SOCK_DGRAM_def SOCK_STREAM_def)
  have it: "ListenForUDPMessages_iteration X req0 incomingAddr s
           = and_then (PerformRequest X req (m_UDPServerDetails s) (- 1) from s1) (\<lambda>(r, s2). Inr s2)"
    using rd received same by (simp add: ListenForUDPMessages_iteration_def)
  show ?thesis
    using pr it by (simp add: and_then_def)
qed

text \<open>The theorem at a server whose UDP socket holds one request that decodes to a
  valid \<open>kDisconnectClient\<close>.\<close>

theorem UDP_disconnect_dereferences_null_witness:
  "fst (ReceiveData (DeserializeRequest test_externals) [] \<lparr>valid = False, action = kOtherMessage 0\<rparr>
          (sfd (m_UDPServerDetails (udp_request [0]))) UDP 0 (udp_request [0]))
   \<and> fst (snd (ReceiveData (DeserializeRequest test_externals) [] \<lparr>valid = False, action = kOtherMessage 0\<rparr>
          (sfd (m_UDPServerDetails (udp_request [0]))) UDP 0 (udp_request [0])))
       = \<lparr>valid = True, action = kDisconnectClient\<rparr>
   \<and> type (m_UDPServerDetails (udp_request [0])) = SOCK_DGRAM
   \<and> alive (m_UDPServerDetails (udp_request [0]))
   \<and> ListenForUDPMessages_iteration test_externals \<lparr>valid = False, action = kOtherMessage 0\<rparr> 0 (udp_request [0])
       = Inl NullPointerDereference
   \<and> ListenForUDPMessages test_externals \<lparr>valid = False, action = kOtherMessage 0\<rparr> 0 (Suc 0) (udp_request [0])
       = Crashed NullPointerDereference"
proof -
  let ?r0 = "\<lparr>valid = False, action = kOtherMessage 0\<rparr>"
  let ?RD = "ReceiveData (DeserializeRequest test_externals) [] ?r0
          (sfd (m_UDPServerDetails (udp_request [0]))) UDP 0 (udp_request [0])"
  have ok: "fst ?RD" and rq: "fst (snd ?RD) = \<lparr>valid = True, action = kDisconnectClient\<rparr>"
    by (simp_all add: udp_request_def test_defs net_defs)
  have rd: "?RD = (fst ?RD, fst (snd ?RD), fst (snd (snd ?RD)), snd (snd (snd ?RD)))" by simp
  have udp: "type (m_UDPServerDetails (udp_request [0])) = SOCK_DGRAM"
    and al: "alive (m_UDPServerDetails (udp_request [0]))"
    by (simp_all add: udp_request_def test_defs)
  have v: "valid (fst (snd ?RD))" "action (fst (snd ?RD)) = kDisconnectClient"
    using rq by simp_all
  note T = UDP_disconnect_dereferences_null [OF rd ok v udp, of 0]
  have it: "ListenForUDPMessages_iteration test_externals ?r0 0 (udp_request [0]) = Inl NullPointerDereference"
    using T by (rule conjunct2 [THEN conjunct2, THEN conjunct1])
  have lp: "ListenForUDPMessages test_externals ?r0 0 (Suc 0) (udp_request [0]) = Crashed NullPointerDereference"
    using T [THEN conjunct2, THEN conjunct2, THEN conjunct2] al by (rule mp)
  show ?thesis
    by (intro conjI ok rq udp al it lp)
qed

section \<open>The dispatcher\<close>

lemma PerformRequest_rejects_invalid:
  "\<not> valid req \<Longrightarrow> PerformRequest X req on cuid incoming s = Inr (ReturnValue False, s)"
  by (simp add: PerformRequest_def)

lemma PerformRequest_never_returns_a_value:
  "valid req \<Longrightarrow> PerformRequest X req on cuid incoming s = Inr (r, s') \<Longrightarrow> \<exists>success. r = NoReturnValue success"
  by (auto simp: PerformRequest_def Let_def split: ClientMessage.splits if_splits option.splits prod.splits)

text \<open>
  Claim C4 says that \<open>PerformRequest\<close> returns false for a request whose \<open>valid\<close> flag is
  unset, returns failure without side effects for an action that matches no case, and
  for handled actions returns whether the action was carried out. The first holds. For
  every valid request the function maintains \<open>success\<close> and then ends without a
  \<open>return\<close> statement: an unmatched action, and a handled one, leave the state as it
  was, but no value is returned.
\<close>

theorem PerformRequest_has_no_return_value:
  "PerformRequest X \<lparr>valid = False, action = a\<rparr> on cuid incoming s = Inr (ReturnValue False, s)
   \<and> PerformRequest X \<lparr>valid = True, action = kOtherMessage v\<rparr> on cuid incoming s = Inr (NoReturnValue False, s)
   \<and> PerformRequest X \<lparr>valid = True, action = kValidateRansomPayment\<rparr> on cuid incoming s = Inr (NoReturnValue False, s)"
  by (simp add: PerformRequest_def)

text \<open>
  Claim C5 says that each of the four key, identity and payment-status actions, arriving
  on the TCP server for an existing session, gets an encrypted reply. For
  \<open>kRequestPublicEncryptionKey\<close> on the TCP server, for the existing session 7, nothing
  is written to the session's socket and the state is unchanged.
\<close>

theorem key_request_without_reply:
  "PerformRequest test_externals \<lparr>valid = True, action = kRequestPublicEncryptionKey\<rparr>
      (m_TCPServerDetails (one_session idle_endpoint)) 7 NULL_ADDR (one_session idle_endpoint)
     = Inr (NoReturnValue False, one_session idle_endpoint)
   \<and> GetClientPtr 7 (one_session idle_endpoint) = Some (test_client 7 5)
   \<and> type (m_TCPServerDetails (one_session idle_endpoint)) = SOCK_STREAM
   \<and> tx (sockets (one_session idle_endpoint) 5) = []"
  by (simp add: PerformRequest_def table_defs test_defs)

text \<open>
  Claim C5 as amended. For an existing session and a valid request:
  \<open>kRequestPrivateEncryptionKey\<close> on the TCP server writes one frame to the session's
  socket, the prefix and the serialized reply packet encrypted under the session's public
  key (when the socket accepts the writes), and leaves the client table as it was; on
  the UDP server each of the four actions sends nothing and changes nothing; the other
  three actions send nothing and change nothing on either server.
\<close>

theorem key_requests:
  assumes session: "GetClientPtr cuid s = Some c" and v: "valid req"
  shows "(type on = SOCK_STREAM \<and> action req = kRequestPrivateEncryptionKey \<and>
          \<not> is_closed (sockets s (Socket c)) \<and> tx_left (sockets s (Socket c)) = None \<longrightarrow>
            (case PerformRequest X req on cuid incoming s of
               Inl f \<Rightarrow> False
             | Inr (r, s') \<Rightarrow>
                 r = NoReturnValue True \<and> m_ClientList s' = m_ClientList s \<and>
                 tx (sockets s' (Socket c)) =
                   tx (sockets s (Socket c)) @
                   (let reply = RSAEncrypt X (SerializePacket X private_key_reply) (ClientPublicKey c) False
                    in [(NULL_ADDR, u32_bytes (length reply mod 4294967296)), (NULL_ADDR, reply)])))
       \<and> (type on \<noteq> SOCK_STREAM \<and>
          action req \<in> {kRequestPrivateEncryptionKey, kRequestPublicEncryptionKey,
                         kRequestRansomBTCAddress, kValidateRansomPayment} \<longrightarrow>
            PerformRequest X req on cuid incoming s = Inr (NoReturnValue False, s))
       \<and> (action req \<in> {kRequestPublicEncryptionKey, kRequestRansomBTCAddress, kValidateRansomPayment} \<longrightarrow>
            PerformRequest X req on cuid incoming s = Inr (NoReturnValue False, s))"
proof (intro conjI impI)
  assume h: "type on = SOCK_STREAM \<and> action req = kRequestPrivateEncryptionKey \<and>
          \<not> is_closed (sockets s (Socket c)) \<and> tx_left (sockets s (Socket c)) = None"
  then show "case PerformRequest X req on cuid incoming s of
               Inl f \<Rightarrow> False
             | Inr (r, s') \<Rightarrow>
                 r = NoReturnValue True \<and> m_ClientList s' = m_ClientList s \<and>
                 tx (sockets s' (Socket c)) =
                   tx (sockets s (Socket c)) @
                   (let reply = RSAEncrypt X (SerializePacket X private_key_reply) (ClientPublicKey c) False
                    in [(NULL_ADDR, u32_bytes (length reply mod 4294967296)), (NULL_ADDR, reply)])"
    using session v
    by (simp add: PerformRequest_def TransmitData_def Send_def SendTo_def set_endpoint_def Let_def
          SOCKET_ERROR_def private_key_reply_def)
next
  assume "type on \<noteq> SOCK_STREAM \<and>
          action req \<in> {kRequestPrivateEncryptionKey, kRequestPublicEncryptionKey,
                         kRequestRansomBTCAddress, kValidateRansomPayment}"
  then show "PerformRequest X req on cuid incoming s = Inr (NoReturnValue False, s)"
    using v by (auto simp: PerformRequest_def)
next
  assume "action req \<in> {kRequestPublicEncryptionKey, kRequestRansomBTCAddress, kValidateRansomPayment}"
  then show "PerformRequest X req on cuid incoming s = Inr (NoReturnValue False, s)"
    using v by (auto simp: PerformRequest_def)
qed

text \<open>The theorem at session 7: the private-key request on the TCP server and on the
  UDP server, and the wallet-address request on the TCP server.\<close>

theorem key_requests_witness:
  "GetClientPtr 7 (one_session idle_endpoint) = Some (test_client 7 5)
   \<and> (case PerformRequest test_externals \<lparr>valid = True, action = kRequestPrivateEncryptionKey\<rparr>
             (m_TCPServerDetails (one_session idle_endpoint)) 7 NULL_ADDR (one_session idle_endpoint) of
         Inl f \<Rightarrow> False
       | Inr (r, s') \<Rightarrow> r = NoReturnValue True \<and> tx (sockets s' 5) = [(0, [2, 0, 0, 0]), (0, [69, 80])])
   \<and> PerformRequest test_externals \<lparr>valid = True, action = kRequestPrivateEncryptionKey\<rparr>
        (m_UDPServerDetails (one_session idle_endpoint)) 7 NULL_ADDR (one_session idle_endpoint)
      = Inr (NoReturnValue False, one_session idle_endpoint)
   \<and> PerformRequest test_externals \<lparr>valid = True, action = kRequestRansomBTCAddress\<rparr>
        (m_TCPServerDetails (one_session idle_endpoint)) 7 NULL_ADDR (one_session idle_endpoint)
      = Inr (NoReturnValue False, one_session idle_endpoint)"
proof -
  let ?s = "one_session idle_endpoint"
  have session: "GetClientPtr 7 ?s = Some (test_client 7 5)"
    by (simp add: table_defs test_defs)
  have tcp: "type (m_TCPServerDetails ?s) = SOCK_STREAM" and udp: "type (m_UDPServerDetails ?s) \<noteq> SOCK_STREAM"
    and ep: "\<not> is_closed (sockets ?s (Socket (test_client 7 5)))" "tx_left (sockets ?s (Socket (test_client 7 5))) = None"
      "tx (sockets ?s (Socket (test_client 7 5))) = []" "Socket (test_client 7 5) = 5"
      "ClientPublicKey (test_client 7 5) = Some [3]"
    by (simp_all add: test_defs)
  have enc: "RSAEncrypt test_externals (SerializePacket test_externals private_key_reply) (Some [3]) False = [69, 80]"
    by (simp add: test_defs)
  note T1 = key_requests [OF session, of "\<lparr>valid = True, action = kRequestPrivateEncryptionKey\<rparr>"
      "m_TCPServerDetails ?s" test_externals NULL_ADDR]
  note T2 = key_requests [OF session, of "\<lparr>valid = True, action = kRequestPrivateEncryptionKey\<rparr>"
      "m_UDPServerDetails ?s" test_externals NULL_ADDR]
  note T3 = key_requests [OF session, of "\<lparr>valid = True, action = kRequestRansomBTCAddress\<rparr>"
      "m_TCPServerDetails ?s" test_externals NULL_ADDR]
  have a: "case PerformRequest test_externals \<lparr>valid = True, action = kRequestPrivateEncryptionKey\<rparr>
             (m_TCPServerDetails ?s) 7 NULL_ADDR ?s of
         Inl f \<Rightarrow> False
       | Inr (r, s') \<Rightarrow> r = NoReturnValue True \<and> tx (sockets s' 5) = [(0, [2, 0, 0, 0]), (0, [69, 80])]"
    using T1 tcp ep enc by (auto simp: Let_def NULL_ADDR_def u32_bytes_def split: sum.splits)
  have b: "PerformRequest test_externals \<lparr>valid = True, action = kRequestPrivateEncryptionKey\<rparr>
        (m_UDPServerDetails ?s) 7 NULL_ADDR ?s = Inr (NoReturnValue False, ?s)"
    using T2 udp by simp
  have c: "PerformRequest test_externals \<lparr>valid = True, action = kRequestRansomBTCAddress\<rparr>
        (m_TCPServerDetails ?s) 7 NULL_ADDR ?s = Inr (NoReturnValue False, ?s)"
    using T3 by simp
  show ?thesis by (intro conjI session a b c)
qed

section \<open>Keep-alive eviction\<close>

text \<open>What the echo handler does to the session's record.\<close>

lemma OnKeepAliveEcho_session:
  assumes c: "map_of (m_ClientList s) cuid = Some c"
  shows "map_of (m_ClientList (OnKeepAliveEcho X cuid f s)) cuid =
           Some (if \<not> GoodDecrypt X (RSADecrypt X f (priv (m_SessionKeys s)) True)
                 then c\<lparr>KeepAliveSuccess := False, KeepAliveProcess := False\<rparr>
                 else if pkt_action (DeserializePacket X (RSADecrypt X f (priv (m_SessionKeys s)) True)) = kKeepAlive
                 then c\<lparr>KeepAliveProcess := False, KeepAliveSuccess := True\<rparr>
                 else c\<lparr>KeepAliveSuccess := False\<rparr>)"
    and "map fst (m_ClientList (OnKeepAliveEcho X cuid f s)) = map fst (m_ClientList s)"
    and "m_SessionKeys (OnKeepAliveEcho X cuid f s) = m_SessionKeys s"
  using c
  by (simp_all add: OnKeepAliveEcho_def GetClientPtr_map_of Let_def map_of_modify_client
        keys_modify_client fields_modify_client)

lemma probe_unanswered_silent: "\<forall>e \<in> set echoes. e = None \<Longrightarrow> probe_unanswered X key echoes"
  by (induction echoes) auto

text \<open>The wait of the monitor runs for at most 50 periods of 100 ms. When the frames
  handed over in these periods leave the probe unanswered, the wait ends with
  \<open>KeepAliveSuccess\<close> false; it changes nothing else but the two keep-alive flags.\<close>

lemma KeepAlive_wait_unanswered:
  "map_of (m_ClientList s) cuid = Some c \<Longrightarrow> \<not> KeepAliveSuccess c \<Longrightarrow>
   probe_unanswered X (priv (m_SessionKeys s))
     (take (Suc ((keepAliveTimeoutMs - 1 - t) div 100)) echoes) \<Longrightarrow>
   \<exists>c'. map_of (m_ClientList (KeepAlive_wait X cuid echoes t s)) cuid = Some c' \<and>
        \<not> KeepAliveSuccess c' \<and> Alive c' = Alive c \<and> Socket c' = Socket c \<and>
        map fst (m_ClientList (KeepAlive_wait X cuid echoes t s)) = map fst (m_ClientList s)"
proof (induction X cuid echoes t s arbitrary: c rule: KeepAlive_wait.induct)
  case (1 X client echoes timePassedMs s)
  let ?s1 = "case echoes of Some f # rest \<Rightarrow> OnKeepAliveEcho X client f s | _ \<Rightarrow> s"
  let ?n = "(keepAliveTimeoutMs - 1 - (timePassedMs + 100)) div 100"
  note c = "1.prems"(1)
  have unfold: "KeepAlive_wait X client echoes timePassedMs s =
      (if timePassedMs + 100 < keepAliveTimeoutMs
          \<and> \<not> KeepAliveSuccess (deref client ?s1) \<and> KeepAliveProcess (deref client ?s1)
       then KeepAlive_wait X client (tl echoes) (timePassedMs + 100) ?s1 else ?s1)"
    by (subst KeepAlive_wait.simps) (simp add: Let_def)
  have step: "\<exists>c1. map_of (m_ClientList ?s1) client = Some c1 \<and> \<not> KeepAliveSuccess c1 \<and>
        Alive c1 = Alive c \<and> Socket c1 = Socket c \<and>
        map fst (m_ClientList ?s1) = map fst (m_ClientList s) \<and>
        m_SessionKeys ?s1 = m_SessionKeys s \<and>
        (KeepAliveProcess c1 \<longrightarrow> probe_unanswered X (priv (m_SessionKeys s))
           (take (Suc ((keepAliveTimeoutMs - 1 - timePassedMs) div 100) - 1) (tl echoes)))"
  proof (cases echoes)
    case Nil
    with "1.prems" show ?thesis by simp
  next
    case (Cons e rest)
    show ?thesis
    proof (cases e)
      case None
      with Cons "1.prems" show ?thesis by simp
    next
      case (Some f)
      with Cons "1.prems" OnKeepAliveEcho_session [OF c, of X f] show ?thesis
        by (auto split: if_splits)
    qed
  qed
  then obtain c1 where c1: "map_of (m_ClientList ?s1) client = Some c1" "\<not> KeepAliveSuccess c1"
    "Alive c1 = Alive c" "Socket c1 = Socket c"
    and k1: "map fst (m_ClientList ?s1) = map fst (m_ClientList s)"
    and sk1: "m_SessionKeys ?s1 = m_SessionKeys s"
    and p1: "KeepAliveProcess c1 \<longrightarrow> probe_unanswered X (priv (m_SessionKeys s))
           (take (Suc ((keepAliveTimeoutMs - 1 - timePassedMs) div 100) - 1) (tl echoes))"
    by blast
  have d1: "deref client ?s1 = c1" using c1(1) by (simp add: deref_def)
  show ?case
  proof (cases "timePassedMs + 100 < keepAliveTimeoutMs
          \<and> \<not> KeepAliveSuccess (deref client ?s1) \<and> KeepAliveProcess (deref client ?s1)")
    case False
    have "KeepAlive_wait X client echoes timePassedMs s = ?s1"
      by (subst unfold, rule if_not_P, rule False)
    then show ?thesis using c1 k1 by auto
  next
    case True
    then have lt: "timePassedMs + 100 < keepAliveTimeoutMs" and pr: "KeepAliveProcess c1"
      using d1 by simp_all
    have n: "(keepAliveTimeoutMs - 1 - timePassedMs) div 100 = Suc ?n"
      using lt by (simp add: keepAliveTimeoutMs_def)
    have p: "probe_unanswered X (priv (m_SessionKeys ?s1)) (take (Suc ?n) (tl echoes))"
      using p1 pr n sk1 by simp
    from "1.IH" [OF refl True c1(1) c1(2) p]
    obtain c' where "map_of (m_ClientList (KeepAlive_wait X client (tl echoes) (timePassedMs + 100) ?s1)) client = Some c'"
      "\<not> KeepAliveSuccess c'" "Alive c' = Alive c1" "Socket c' = Socket c1"
      "map fst (m_ClientList (KeepAlive_wait X client (tl echoes) (timePassedMs + 100) ?s1)) = map fst (m_ClientList ?s1)"
      by blast
    moreover have "KeepAlive_wait X client echoes timePassedMs s
                   = KeepAlive_wait X client (tl echoes) (timePassedMs + 100) ?s1"
      by (subst unfold, rule if_P, rule True)
    ultimately show ?thesis using c1 k1 by auto
  qed
qed

text \<open>What \<open>RemoveClientFromServer\<close> does to a live session, and that doing it again
  does nothing.\<close>

lemma RemoveClientFromServer_effects:
  assumes c: "map_of (m_ClientList s) cuid = Some c" and a: "Alive c"
  shows "deref cuid (RemoveClientFromServer cuid s) = c\<lparr>Alive := False, Socket := INVALID_SOCKET\<rparr>"
    and "is_closed (sockets (RemoveClientFromServer cuid s) (Socket c))"
    and "map fst (m_ClientList (RemoveClientFromServer cuid s)) = map fst (m_ClientList s)"
    and "RemoveClientFromServer cuid (RemoveClientFromServer cuid s) = RemoveClientFromServer cuid s"
proof -
  show d: "deref cuid (RemoveClientFromServer cuid s) = c\<lparr>Alive := False, Socket := INVALID_SOCKET\<rparr>"
    using c a
    by (simp add: RemoveClientFromServer_def Disconnect_def CloseSocket_def set_endpoint_def
          modify_client_def deref_def map_of_modify_entry)
  show "is_closed (sockets (RemoveClientFromServer cuid s) (Socket c))"
    using c a
    by (simp add: RemoveClientFromServer_def Disconnect_def CloseSocket_def set_endpoint_def
          modify_client_def deref_def map_of_modify_entry)
  show "map fst (m_ClientList (RemoveClientFromServer cuid s)) = map fst (m_ClientList s)"
    by (simp add: RemoveClientFromServer_def Disconnect_def CloseSocket_def set_endpoint_def
          modify_client_def map_fst_modify_entry)
  show "RemoveClientFromServer cuid (RemoveClientFromServer cuid s) = RemoveClientFromServer cuid s"
    using d by (subst RemoveClientFromServer_def) simp
qed



lemma TransmitData_TCP_fails:
  "is_closed (sockets s sock) \<or> tx_left (sockets s sock) = Some 0 \<or> tx_left (sockets s sock) = Some (Suc 0) \<Longrightarrow>
   \<not> fst (TransmitData E m sock TCP a e k p s)"
  by (auto simp: TransmitData_def Send_def SendTo_def Let_def SOCKET_ERROR_def set_endpoint_def)

text \<open>A round whose probe cannot be sent (the socket is closed, or the first or the
  second write fails), or whose probe is left unanswered in the 50 periods, ends the loop
  with \<open>RemoveClientFromServer\<close> on a state where the session is as alive as before.\<close>

lemma SendKeepAlivePackets_round_evicts:
  assumes c: "map_of (m_ClientList s) cuid = Some c"
    and h: "is_closed (sockets s (Socket c)) \<or> tx_left (sockets s (Socket c)) = Some 0 \<or>
            tx_left (sockets s (Socket c)) = Some (Suc 0) \<or>
            probe_unanswered X (priv (m_SessionKeys s)) (take 50 echoes)"
  shows "\<exists>s0 c0. SendKeepAlivePackets_round X cuid echoes s = (False, RemoveClientFromServer cuid s0) \<and>
           map_of (m_ClientList s0) cuid = Some c0 \<and> Alive c0 = Alive c \<and> Socket c0 = Socket c \<and>
           map fst (m_ClientList s0) = map fst (m_ClientList s)"
proof -
  let ?s1 = "modify_client cuid (\<lambda>c. c\<lparr>KeepAliveSuccess := False\<rparr>) s"
  let ?c1 = "c\<lparr>KeepAliveSuccess := False\<rparr>"
  let ?probe = "RSAEncrypt X (SerializePacket X CreateKeepAlivePacket) (ClientPublicKey ?c1) False"
  have c1: "map_of (m_ClientList ?s1) cuid = Some ?c1"
    using c by (simp add: map_of_modify_client)
  have d1: "deref cuid ?s1 = ?c1" using c1 by (simp add: deref_def)
  have k1: "map fst (m_ClientList ?s1) = map fst (m_ClientList s)"
    by (simp add: keys_modify_client)
  have sk1: "sockets ?s1 = sockets s" by (simp add: fields_modify_client)
  obtain sent s2 where tr: "TransmitData (RSAEncrypt X) ?probe (Socket c) TCP NULL_ADDR False None False ?s1 = (sent, s2)"
    by (cases "TransmitData (RSAEncrypt X) ?probe (Socket c) TCP NULL_ADDR False None False ?s1")
  from TransmitData_net_step [OF tr] have l2: "m_ClientList s2 = m_ClientList ?s1"
    and key2: "m_SessionKeys s2 = m_SessionKeys s"
    by (simp_all add: net_step_def fields_modify_client)
  have c2: "map_of (m_ClientList s2) cuid = Some ?c1"
    using c1 l2 by simp
  show ?thesis
  proof (cases sent)
    case False
    have "SendKeepAlivePackets_round X cuid echoes s = (False, RemoveClientFromServer cuid s2)"
      using d1 tr False by (simp add: SendKeepAlivePackets_round_def Let_def)
    then show ?thesis using c2 l2 k1 by auto
  next
    case True
    with tr TransmitData_TCP_fails [of ?s1 "Socket c" "RSAEncrypt X" ?probe NULL_ADDR False None False] sk1 h
    have pu: "probe_unanswered X (priv (m_SessionKeys s)) (take 50 echoes)" by auto
    let ?s3 = "modify_client cuid (\<lambda>c. c\<lparr>KeepAliveProcess := True\<rparr>) s2"
    let ?s4 = "KeepAlive_wait X cuid echoes 0 ?s3"
    let ?s5 = "modify_client cuid (\<lambda>c. c\<lparr>KeepAliveProcess := False\<rparr>) ?s4"
    have c3: "map_of (m_ClientList ?s3) cuid = Some (?c1\<lparr>KeepAliveProcess := True\<rparr>)"
      using c2 by (simp add: map_of_modify_client)
    have k3: "map fst (m_ClientList ?s3) = map fst (m_ClientList s)"
      using k1 l2 by (simp add: keys_modify_client)
    have pu3: "probe_unanswered X (priv (m_SessionKeys ?s3))
                 (take (Suc ((keepAliveTimeoutMs - 1 - 0) div 100)) echoes)"
      using pu key2 by (simp add: fields_modify_client keepAliveTimeoutMs_def)
    from KeepAlive_wait_unanswered [OF c3 _ pu3]
    obtain c4 where c4: "map_of (m_ClientList ?s4) cuid = Some c4" "\<not> KeepAliveSuccess c4"
      "Alive c4 = Alive c" "Socket c4 = Socket c"
      and k4: "map fst (m_ClientList ?s4) = map fst (m_ClientList ?s3)"
      by auto
    have c5: "map_of (m_ClientList ?s5) cuid = Some (c4\<lparr>KeepAliveProcess := False\<rparr>)"
      using c4(1) by (simp add: map_of_modify_client)
    have d5: "deref cuid ?s5 = c4\<lparr>KeepAliveProcess := False\<rparr>"
      using c5 by (simp add: deref_def)
    have k5: "map fst (m_ClientList ?s5) = map fst (m_ClientList s)"
      using k3 k4 by (simp add: keys_modify_client)
    have "SendKeepAlivePackets_round X cuid echoes s = (False, RemoveClientFromServer cuid ?s5)"
      using d1 tr True d5 c4(2) by (simp add: SendKeepAlivePackets_round_def Let_def)
    then show ?thesis using c5 k5 c4 by auto
  qed
qed

text \<open>
  For every live session whose keep-alive probe cannot be sent, or is left unanswered
  within \<open>keepAliveTimeoutMs\<close>, the monitor finishes: the session is marked not alive, its
  socket is closed and its handle made invalid, and a second eviction changes nothing.
  The session's record is still in the client table, which keeps all its keys.
\<close>

lemma keep_alive_eviction:
  assumes session: "GetClientPtr cuid s = Some c" and live: "Alive c"
    and failure: "is_closed (sockets s (Socket c)) \<or> tx_left (sockets s (Socket c)) = Some 0 \<or>
            tx_left (sockets s (Socket c)) = Some (Suc 0) \<or>
            probe_unanswered X (priv (m_SessionKeys s)) (take 50 echoes)"
  shows "\<exists>s'. SendKeepAlivePackets X cuid (echoes # rounds) s = Finished s' \<and>
             \<not> Alive (deref cuid s') \<and> Socket (deref cuid s') = INVALID_SOCKET \<and>
             is_closed (sockets s' (Socket c)) \<and>
             ClientIsInClientList cuid s' \<and> map fst (m_ClientList s') = map fst (m_ClientList s) \<and>
             RemoveClientFromServer cuid s' = s'"
proof -
  from session have c: "map_of (m_ClientList s) cuid = Some c"
    by (simp add: GetClientPtr_map_of)
  from SendKeepAlivePackets_round_evicts [OF c failure]
  obtain s0 c0 where r: "SendKeepAlivePackets_round X cuid echoes s = (False, RemoveClientFromServer cuid s0)"
    and c0: "map_of (m_ClientList s0) cuid = Some c0" "Alive c0 = Alive c" "Socket c0 = Socket c"
    and k0: "map fst (m_ClientList s0) = map fst (m_ClientList s)"
    by blast
  let ?s' = "RemoveClientFromServer cuid s0"
  have a0: "Alive c0" using c0(2) live by simp
  have run: "SendKeepAlivePackets X cuid (echoes # rounds) s = Finished ?s'"
    using session r by (simp add: SendKeepAlivePackets_def)
  note e = RemoveClientFromServer_effects [OF c0(1) a0]
  have keys: "map fst (m_ClientList ?s') = map fst (m_ClientList s)"
    using e(3) k0 by simp
  have "cuid \<in> set (map fst (m_ClientList s))"
    using c by (metis map_of_eq_None_iff option.distinct(1) set_map)
  then have present: "ClientIsInClientList cuid ?s'"
    unfolding ClientIsInClientList_def keys [symmetric]
    by (metis map_of_eq_None_iff set_map)
  show ?thesis
    using run e(1) e(2) e(4) c0(3) keys present by simp
qed

text \<open>
  Claim C2 says that the monitor evicts a session whose probe cannot be sent or is never
  echoed within \<open>keepAliveTimeoutMs\<close>: the session is removed from the session registry
  exactly once and its socket is closed. For session 7, once with a socket that takes
  no write and once with a peer that sends nothing in the 50 periods of the wait, the
  monitor finishes, the session is not alive, its socket is closed and a second eviction
  changes nothing; but the client table still holds the key 7 and its one entry, and
  \<open>GetClientPtr\<close> still finds the record. \<open>RemoveClientFromServer\<close> never erases.
\<close>

theorem eviction_keeps_the_session_registered:
  "(case SendKeepAlivePackets test_externals 7 [[]] (one_session (idle_endpoint\<lparr>tx_left := Some 0\<rparr>)) of
      Finished s' \<Rightarrow>
        \<not> Alive (deref 7 s') \<and> is_closed (sockets s' 5) \<and> RemoveClientFromServer 7 s' = s' \<and>
        ClientIsInClientList 7 s' \<and> map fst (m_ClientList s') = [7] \<and> GetClientPtr 7 s' \<noteq> None
    | _ \<Rightarrow> False)
   \<and> (case SendKeepAlivePackets test_externals 7 [replicate 50 None] (one_session idle_endpoint) of
      Finished s' \<Rightarrow>
        \<not> Alive (deref 7 s') \<and> is_closed (sockets s' 5) \<and> RemoveClientFromServer 7 s' = s' \<and>
        ClientIsInClientList 7 s' \<and> map fst (m_ClientList s') = [7] \<and> GetClientPtr 7 s' \<noteq> None
    | _ \<Rightarrow> False)"
proof -
  let ?A = "one_session (idle_endpoint\<lparr>tx_left := Some 0\<rparr>)"
  let ?B = "one_session idle_endpoint"
  have sA: "GetClientPtr 7 ?A = Some (test_client 7 5)" and sB: "GetClientPtr 7 ?B = Some (test_client 7 5)"
    and kA: "map fst (m_ClientList ?A) = [7]" and kB: "map fst (m_ClientList ?B) = [7]"
    by (simp_all add: table_defs test_defs)
  have live: "Alive (test_client 7 5)" and sock: "Socket (test_client 7 5) = 5"
    by (simp_all add: test_defs)
  have txA: "tx_left (sockets ?A (Socket (test_client 7 5))) = Some 0"
    by (simp add: test_defs)
  have silent: "probe_unanswered test_externals (priv (m_SessionKeys ?B)) (take 50 (replicate 50 None))"
    by (rule probe_unanswered_silent) simp
  have a: "case SendKeepAlivePackets test_externals 7 [[]] ?A of
      Finished s' \<Rightarrow>
        \<not> Alive (deref 7 s') \<and> is_closed (sockets s' 5) \<and> RemoveClientFromServer 7 s' = s' \<and>
        ClientIsInClientList 7 s' \<and> map fst (m_ClientList s') = [7] \<and> GetClientPtr 7 s' \<noteq> None
    | _ \<Rightarrow> False"
    using keep_alive_eviction [OF sA live, where echoes = "[]" and X = test_externals and rounds = "[]"] txA sock kA
    by (auto simp: GetClientPtr_map_of ClientIsInClientList_def)
  have b: "case SendKeepAlivePackets test_externals 7 [replicate 50 None] ?B of
      Finished s' \<Rightarrow>
        \<not> Alive (deref 7 s') \<and> is_closed (sockets s' 5) \<and> RemoveClientFromServer 7 s' = s' \<and>
        ClientIsInClientList 7 s' \<and> map fst (m_ClientList s') = [7] \<and> GetClientPtr 7 s' \<noteq> None
    | _ \<Rightarrow> False"
    using keep_alive_eviction [OF sB live, where echoes = "replicate 50 None" and X = test_externals and rounds = "[]"] silent sock kB
    by (auto simp: GetClientPtr_map_of ClientIsInClientList_def)
  show ?thesis by (intro conjI a b)
qed

section \<open>The validity check on decrypted frames\<close>









section \<open>Accepting connections\<close>

lemma same_keys_refl: "same_keys s s"
  by (simp add: same_keys_def)

lemma same_keys_trans: "same_keys s s' \<Longrightarrow> same_keys s' s'' \<Longrightarrow> same_keys s s''"
  by (simp add: same_keys_def)

lemma net_step_same_keys: "net_step s s' \<Longrightarrow> same_keys s s'"
  by (simp add: net_step_def same_keys_def)

lemma modify_client_same_keys: "same_keys s (modify_client k f s)"
  by (simp add: same_keys_def keys_modify_client fields_modify_client)

lemma present_iff_key: "(map_of l k \<noteq> None) = (k \<in> set (map fst l))"
  by (simp add: map_of_eq_None_iff)

lemma same_keys_present:
  "same_keys s s' \<Longrightarrow> map_of (m_ClientList s) k \<noteq> None \<Longrightarrow> map_of (m_ClientList s') k \<noteq> None"
  unfolding present_iff_key same_keys_def by simp

lemma ExchangePublicKeys_same_keys: "same_keys s (snd (ExchangePublicKeys X cuid s))"
proof (cases "GetClientPtr cuid s")
  case None
  then show ?thesis by (simp add: ExchangePublicKeys_def same_keys_refl)
next
  case (Some client)
  let ?der = "i2d_RSAPublicKey X (pub (m_SessionKeys s))"
  let ?len = "case ?der of None \<Rightarrow> - 1 | Some d \<Rightarrow> int_of_size (length d)"
  obtain r1 s1 where 1: "Send (Socket client) (i32_bytes ?len) s = (r1, s1)"
    by (cases "Send (Socket client) (i32_bytes ?len) s")
  obtain r2 s2 where 2: "(case ?der of None \<Rightarrow> (SOCKET_ERROR, s1\<lparr>last_error := WSAEFAULT\<rparr>)
                            | Some d \<Rightarrow> Send (Socket client) d s1) = (r2, s2)"
    by (cases "(case ?der of None \<Rightarrow> (SOCKET_ERROR, s1\<lparr>last_error := WSAEFAULT\<rparr>)
                            | Some d \<Rightarrow> Send (Socket client) d s1)")
  obtain r3 g3 s3 where 3: "Receive (Socket client) 4 s2 = (r3, g3, s3)"
    by (cases "Receive (Socket client) 4 s2")
  obtain r4 g4 s4 where 4: "Receive (Socket client) (i32_value g3) s3 = (r4, g4, s4)"
    by (cases "Receive (Socket client) (i32_value g3) s3")
  have k1: "same_keys s s1" using Send_net_step [OF 1] by (rule net_step_same_keys)
  have k2: "same_keys s1 s2"
    using 2 Send_net_step [of "Socket client" _ s1 r2 s2]
    by (auto simp: same_keys_def net_step_def split: option.splits)
  have k3: "same_keys s2 s3" using Receive_net_step [OF 3] by (rule net_step_same_keys)
  have k4: "same_keys s3 s4" using Receive_net_step [OF 4] by (rule net_step_same_keys)
  have k5: "same_keys s4 (modify_client cuid f s4)" for f by (rule modify_client_same_keys)
  have "snd (ExchangePublicKeys X cuid s) \<in> {s1, s2, s3, s4,
          modify_client cuid (\<lambda>c. c\<lparr>ClientPublicKey := d2i_RSAPublicKey X g4 (i32_value g3)\<rparr>) s4}"
    using Some 1 2 3 4 by (simp add: ExchangePublicKeys_def Let_def)
  moreover have k02: "same_keys s s2" using k1 k2 by (rule same_keys_trans)
  moreover have k03: "same_keys s s3" using k02 k3 by (rule same_keys_trans)
  moreover have k04: "same_keys s s4" using k03 k4 by (rule same_keys_trans)
  moreover have "same_keys s (modify_client cuid f s4)" for f
    using k04 k5 by (rule same_keys_trans)
  ultimately show ?thesis
    using k1 by auto
qed

lemma identity_same_keys:
  assumes "map_of (m_ClientList s) cuid \<noteq> None"
  shows "\<exists>r s'. GetClientComputerName X cuid s = Inr (r, s') \<and> same_keys s s'"
    and "\<exists>r s'. GetClientMachineGUID X cuid s = Inr (r, s') \<and> same_keys s s'"
proof -
  from assms obtain c where c: "GetClientPtr cuid s = Some c"
    by (auto simp: GetClientPtr_map_of)
  obtain r d a s1 where rd: "ReceiveData (DeserializeBytes X) [] [] (Socket c) TCP NULL_ADDR s = (r, d, a, s1)"
    by (cases "ReceiveData (DeserializeBytes X) [] [] (Socket c) TCP NULL_ADDR s")
  have k: "same_keys s s1" using ReceiveData_net_step [OF rd] by (rule net_step_same_keys)
  have km: "same_keys s (modify_client cuid f s1)" for f
    using k modify_client_same_keys by (rule same_keys_trans)
  show "\<exists>r s'. GetClientComputerName X cuid s = Inr (r, s') \<and> same_keys s s'"
    using c rd k km by (auto simp: GetClientComputerName_def Let_def)
  show "\<exists>r s'. GetClientMachineGUID X cuid s = Inr (r, s') \<and> same_keys s s'"
    using c rd k km by (auto simp: GetClientMachineGUID_def Let_def)
qed

lemma GetClientSaveFile_same_keys:
  assumes "map_of (m_ClientList s) cuid \<noteq> None"
  shows "\<exists>s'. GetClientSaveFile cuid s = Inr s' \<and> same_keys s s'"
  using assms modify_client_same_keys [of s cuid]
  by (auto simp: GetClientSaveFile_def GetClientPtr_map_of Let_def same_keys_refl
           split: option.splits)

lemma SaveServerState_same_keys: "same_keys s (snd (SaveServerState X s))"
  by (simp add: SaveServerState_def Let_def same_keys_def)

text \<open>\<open>OnTCPConnection\<close> with a fresh identifier never faults, appends the session to
  the client table and leaves the TCP server record alone.\<close>

lemma OnTCPConnection_registers:
  assumes fresh: "map_of (m_ClientList s) cuid = None"
  shows "\<exists>s'. OnTCPConnection X cuid ransomKeys connection incoming s = Inr s' \<and>
              map fst (m_ClientList s') = map fst (m_ClientList s) @ [cuid] \<and>
              m_TCPServerDetails s' = m_TCPServerDetails s"
proof -
  let ?client = "(new_Client cuid connection incoming)\<lparr>RansomSecrets := ransomKeys, Alive := True\<rparr>"
  let ?s1 = "snd (AddToClientList ?client s)"
  let ?s2 = "snd (ExchangePublicKeys X cuid ?s1)"
  have id: "ClientUID ?client = cuid" by (simp add: new_Client_def)
  have l1: "map fst (m_ClientList ?s1) = map fst (m_ClientList s) @ [cuid]"
    and t1: "m_TCPServerDetails ?s1 = m_TCPServerDetails s"
    using fresh by (simp_all add: AddToClientList_def new_Client_def)
  have p1: "map_of (m_ClientList ?s1) cuid \<noteq> None"
    unfolding present_iff_key l1 by simp
  have k2: "same_keys ?s1 ?s2" by (rule ExchangePublicKeys_same_keys)
  from identity_same_keys(1) [OF same_keys_present [OF k2 p1], of X]
  obtain r3 s3 where 3: "GetClientComputerName X cuid ?s2 = Inr (r3, s3)" and k3: "same_keys ?s2 s3"
    by blast
  have k13: "same_keys ?s1 s3" using k2 k3 by (rule same_keys_trans)
  from identity_same_keys(2) [OF same_keys_present [OF k13 p1], of X]
  obtain r4 s4 where 4: "GetClientMachineGUID X cuid s3 = Inr (r4, s4)" and k4: "same_keys s3 s4"
    by blast
  have k14: "same_keys ?s1 s4" using k13 k4 by (rule same_keys_trans)
  obtain s5 where 5: "(if IsClientInSaveFile (MachineGUID ?client) s4
                   then GetClientSaveFile cuid s4 else Inr s4) = Inr s5" and k5: "same_keys s4 s5"
    using GetClientSaveFile_same_keys [OF same_keys_present [OF k14 p1]] same_keys_refl [of s4]
    by (cases "IsClientInSaveFile (MachineGUID ?client) s4") auto
  have k15: "same_keys ?s1 s5" using k14 k5 by (rule same_keys_trans)
  let ?s6 = "snd (SaveServerState X s5)"
  have k16: "same_keys ?s1 ?s6" using k15 SaveServerState_same_keys by (rule same_keys_trans)
  have "OnTCPConnection X cuid ransomKeys connection incoming s =
          Inr (?s6\<lparr>threads := threads ?s6 @ [TCPReceiveMessagesFromClient_thread cuid,
                                              SendKeepAlivePackets_thread cuid]\<rparr>)"
    unfolding OnTCPConnection_def Let_def id 3 4 5 and_then_def sum.case prod.case
    by (rule refl)
  then show ?thesis
    using k16 l1 t1 by (simp add: same_keys_def)
qed

text \<open>
  Claim C8 says that the accept loop keeps the number of sessions in the registry within
  \<open>maxConnections\<close> (100, persisted as \<open>max_connections\<close>) and performs no accept once the
  registry holds that many. The loop tests \<open>m_ClientList.size() <= 200\<close>. With 100
  sessions registered it accepts the next connection, the table then holds 101, and the
  thread is waiting in \<open>accept\<close> again.
\<close>

theorem accept_loop_exceeds_maxConnections:
  "length (m_ClientList full_server) = maxConnections
   \<and> (case AcceptTCPConnections test_externals [Accepted 5 0 777 keys] full_server of
         Waiting s' \<Rightarrow> length (m_ClientList s') = maxConnections + 1 \<and> accepting (m_TCPServerDetails s')
       | _ \<Rightarrow> False)"
proof -
  let ?s = "full_server\<lparr>m_TCPServerDetails := (m_TCPServerDetails full_server)\<lparr>accepting := True\<rparr>\<rparr>"
  have len: "length (m_ClientList full_server) = maxConnections"
    by (simp add: full_server_def test_server_def maxConnections_def)
  have fresh: "map_of (m_ClientList ?s) 777 = None"
    by (auto simp: full_server_def test_server_def map_of_eq_None_iff)
  from OnTCPConnection_registers [OF fresh, of test_externals keys 5 0]
  obtain s' where on: "OnTCPConnection test_externals 777 keys 5 0 ?s = Inr s'"
    and l: "map fst (m_ClientList s') = map fst (m_ClientList ?s) @ [777]"
    and t: "m_TCPServerDetails s' = m_TCPServerDetails ?s"
    by blast
  from l have "length (map fst (m_ClientList s')) = length (map fst (m_ClientList ?s) @ [777])"
    by simp
  then have len': "length (m_ClientList s') = maxConnections + 1"
    using len by simp
  have al: "alive (m_TCPServerDetails ?s)" "\<not> accepting (m_TCPServerDetails full_server)"
    by (simp_all add: full_server_def test_server_def)
  have "AcceptTCPConnections test_externals [Accepted 5 0 777 keys] full_server = Waiting s'"
    using on len len' t al
    by (simp add: AcceptTCPConnections_def INVALID_SOCKET_def maxConnections_def)
  then show ?thesis using len len' t by simp
qed

text \<open>When \<open>ExchangePublicKeys\<close> returns false the client table is as before: no public key
  has been stored.\<close>

lemma ExchangePublicKeys_failure_stores_no_key:
  assumes "\<not> fst (ExchangePublicKeys X cuid s)"
  shows "m_ClientList (snd (ExchangePublicKeys X cuid s)) = m_ClientList s"
proof (cases "GetClientPtr cuid s")
  case None
  then show ?thesis by (simp add: ExchangePublicKeys_def)
next
  case (Some client)
  let ?der = "i2d_RSAPublicKey X (pub (m_SessionKeys s))"
  let ?len = "case ?der of None \<Rightarrow> - 1 | Some d \<Rightarrow> int_of_size (length d)"
  obtain r1 s1 where 1: "Send (Socket client) (i32_bytes ?len) s = (r1, s1)"
    by (cases "Send (Socket client) (i32_bytes ?len) s")
  obtain r2 s2 where 2: "(case ?der of None \<Rightarrow> (SOCKET_ERROR, s1\<lparr>last_error := WSAEFAULT\<rparr>)
                            | Some d \<Rightarrow> Send (Socket client) d s1) = (r2, s2)"
    by (cases "(case ?der of None \<Rightarrow> (SOCKET_ERROR, s1\<lparr>last_error := WSAEFAULT\<rparr>)
                            | Some d \<Rightarrow> Send (Socket client) d s1)")
  obtain r3 g3 s3 where 3: "Receive (Socket client) 4 s2 = (r3, g3, s3)"
    by (cases "Receive (Socket client) 4 s2")
  obtain r4 g4 s4 where 4: "Receive (Socket client) (i32_value g3) s3 = (r4, g4, s4)"
    by (cases "Receive (Socket client) (i32_value g3) s3")
  have l1: "m_ClientList s1 = m_ClientList s"
    using Send_net_step [OF 1] by (simp add: net_step_def)
  have l2: "m_ClientList s2 = m_ClientList s1"
    using 2 Send_net_step [of "Socket client" _ s1 r2 s2]
    by (auto simp: net_step_def split: option.splits)
  have l3: "m_ClientList s3 = m_ClientList s2"
    using Receive_net_step [OF 3] by (simp add: net_step_def)
  have l4: "m_ClientList s4 = m_ClientList s3"
    using Receive_net_step [OF 4] by (simp add: net_step_def)
  from assms Some 1 2 3 4 have "snd (ExchangePublicKeys X cuid s) \<in> {s1, s2, s3, s4}"
    by (auto simp: ExchangePublicKeys_def Let_def split: if_splits)
  then show ?thesis using l1 l2 l3 l4 by auto
qed

text \<open>
  Claim C1 says that when the key exchange with a newly accepted peer fails at any
  partial step, \<open>ExchangePublicKeys\<close> returns failure and no session is created: the
  socket is closed, the session is removed from the registry and no loop is started.
  \<open>OnTCPConnection\<close> drops the result of \<open>ExchangePublicKeys\<close>. For a peer that sends
  its key length and closes, \<open>ExchangePublicKeys\<close> returns false and stores no key, and
  \<open>OnTCPConnection\<close> still leaves session 7 in the table, alive, on its open socket,
  with both threads started. For a peer that sends three of the 270 announced key bytes
  and closes, \<open>ExchangePublicKeys\<close> returns true and stores what decoding the three
  bytes gives.
\<close>

theorem failed_key_exchange_keeps_the_session:
  "\<not> fst (ExchangePublicKeys test_externals 7
             (snd (AddToClientList ((new_Client 7 5 0)\<lparr>RansomSecrets := keys, Alive := True\<rparr>) half_handshake)))
   \<and> (case OnTCPConnection test_externals 7 keys 5 0 half_handshake of
         Inl f \<Rightarrow> False
       | Inr s' \<Rightarrow>
           ClientIsInClientList 7 s' \<and> Alive (deref 7 s') \<and> Socket (deref 7 s') = 5 \<and>
           \<not> is_closed (sockets s' 5) \<and> ClientPublicKey (deref 7 s') = None \<and>
           threads s' = [TCPReceiveMessagesFromClient_thread 7, SendKeepAlivePackets_thread 7])
   \<and> fst (ExchangePublicKeys test_externals 7 partial_key)
   \<and> ClientPublicKey (deref 7 (snd (ExchangePublicKeys test_externals 7 partial_key))) = Some [1, 2, 3]"
  by (simp add: OnTCPConnection_def ExchangePublicKeys_def GetClientComputerName_def
        GetClientMachineGUID_def IsClientInSaveFile_def GetClientSaveFile_def SaveServerState_def
        ReadServerStateFile_def json_empty_def save_entry_def and_then_def half_handshake_def
        partial_key_def table_defs test_defs net_defs)

end
